theory Spec2Isabelle
  imports Complex_Main
begin

section \<open>The snapshot pipeline of apps/execution-ts\<close>

text \<open>
  A shallow embedding of \<^verbatim>\<open>core.ts\<close> (the snapshot run, the token-list
  resolver, the quote helper and the retrying fetch) and of \<^verbatim>\<open>db.ts\<close> (the
  sqlite store). Everything outside the process is an explicit argument: the HTTP
  server, the ledger, the two JSON files, the clock and the random source. The
  fan-outs through \<^verbatim>\<open>pLimit\<close> are run in list order; the tasks share nothing
  but the arrays they push to, and each task catches its own failures.
\<close>

subsection \<open>fetchJsonWithBackoff\<close>

text \<open>
  What \<^verbatim>\<open>axios.get\<close> rejects with: \<open>status\<close> is \<^verbatim>\<open>e?.response?.status\<close>,
  absent for a failure that carries no response.
\<close>

datatype http_error = HttpError (status: "nat option") (detail: string)

datatype 'a attempt = Response 'a | Rejected http_error

text \<open>\<^verbatim>\<open>status === 429 || (status >= 500 && status < 600)\<close>\<close>

definition retriable :: "nat option \<Rightarrow> bool" where
  "retriable st = (case st of None \<Rightarrow> False | Some s \<Rightarrow> s = 429 \<or> (500 \<le> s \<and> s < 600))"

text \<open>\<^verbatim>\<open>Math.floor(Math.random() * 150)\<close>, for the value \<open>r\<close> that \<^verbatim>\<open>Math.random()\<close> returned.\<close>

definition jitter :: "rat \<Rightarrow> int" where
  "jitter r = \<lfloor>r * 150\<rfloor>"

text \<open>\<^verbatim>\<open>Math.min(maxDelayMs, 400 * Math.pow(2, i)) + Math.floor(Math.random() * 150)\<close>\<close>

definition backoff_delay :: "int \<Rightarrow> nat \<Rightarrow> rat \<Rightarrow> int" where
  "backoff_delay maxDelayMs i r = min maxDelayMs (400 * 2 ^ i) + jitter r"

text \<open>
  The loop of \<^verbatim>\<open>fetchJsonWithBackoff\<close> from iteration \<open>i\<close> on. \<open>get req k\<close> is the
  outcome of the \<open>k\<close>-th \<^verbatim>\<open>axios.get\<close> of this call, \<open>rnd k\<close> what
  \<^verbatim>\<open>Math.random()\<close> returns in iteration \<open>k\<close>. The result is what is returned
  (\<open>Inr\<close>) or thrown (\<open>Inl\<close>; \<open>None\<close> is the \<^verbatim>\<open>undefined\<close> that
  \<^verbatim>\<open>throw lastErr\<close> throws when the loop never ran), with the delays slept, in order.
\<close>

function fetch_loop ::
  "('q \<Rightarrow> nat \<Rightarrow> 'a attempt) \<Rightarrow> (nat \<Rightarrow> rat) \<Rightarrow> 'q \<Rightarrow> nat \<Rightarrow> int \<Rightarrow>
   nat \<Rightarrow> http_error option \<Rightarrow> int list \<Rightarrow> (http_error option + 'a) \<times> int list" where
  "fetch_loop get rnd req attempts maxDelayMs i lastErr slept =
     (if i < attempts then
        (case get req i of
           Response data \<Rightarrow> (Inr data, slept)
         | Rejected e \<Rightarrow>
             if retriable (status e)
             then fetch_loop get rnd req attempts maxDelayMs (Suc i) (Some e)
                    (slept @ [backoff_delay maxDelayMs i (rnd i)])
             else (Inl (Some e), slept))
      else (Inl lastErr, slept))"
  by pat_completeness auto
termination
  by (relation "measure (\<lambda>(get, rnd, req, attempts, maxDelayMs, i, lastErr, slept). attempts - i)") auto

declare fetch_loop.simps [simp del]

definition fetchJsonWithBackoff ::
  "('q \<Rightarrow> nat \<Rightarrow> 'a attempt) \<Rightarrow> (nat \<Rightarrow> rat) \<Rightarrow> 'q \<Rightarrow> nat \<Rightarrow> int \<Rightarrow>
   (http_error option + 'a) \<times> int list" where
  "fetchJsonWithBackoff get rnd req attempts maxDelayMs =
     fetch_loop get rnd req attempts maxDelayMs 0 None []"

subsection \<open>Numbers and strings of the runtime\<close>

text \<open>
  A JavaScript number is kept as an exact rational or one of the three special values;
  the rounding and the overflow of doubles and the sign of zero are not represented. The
  operators follow the language's tables for the special values.
\<close>

datatype number = NaN | PosInf | NegInf | Fin rat

definition inf_of_sign :: "rat \<Rightarrow> number" where
  "inf_of_sign a = (if a = 0 then NaN else if 0 < a then PosInf else NegInf)"

fun num_neg :: "number \<Rightarrow> number" where
  "num_neg (Fin a) = Fin (- a)"
| "num_neg PosInf = NegInf"
| "num_neg NegInf = PosInf"
| "num_neg NaN = NaN"

fun num_add :: "number \<Rightarrow> number \<Rightarrow> number" where
  "num_add (Fin a) (Fin b) = Fin (a + b)"
| "num_add NaN y = NaN"
| "num_add x NaN = NaN"
| "num_add PosInf NegInf = NaN"
| "num_add NegInf PosInf = NaN"
| "num_add PosInf y = PosInf"
| "num_add NegInf y = NegInf"
| "num_add (Fin a) y = y"

definition num_sub :: "number \<Rightarrow> number \<Rightarrow> number" where
  "num_sub x y = num_add x (num_neg y)"

fun num_mul :: "number \<Rightarrow> number \<Rightarrow> number" where
  "num_mul (Fin a) (Fin b) = Fin (a * b)"
| "num_mul NaN y = NaN"
| "num_mul x NaN = NaN"
| "num_mul PosInf (Fin b) = inf_of_sign b"
| "num_mul NegInf (Fin b) = inf_of_sign (- b)"
| "num_mul (Fin a) PosInf = inf_of_sign a"
| "num_mul (Fin a) NegInf = inf_of_sign (- a)"
| "num_mul PosInf PosInf = PosInf"
| "num_mul NegInf NegInf = PosInf"
| "num_mul PosInf NegInf = NegInf"
| "num_mul NegInf PosInf = NegInf"

fun num_div :: "number \<Rightarrow> number \<Rightarrow> number" where
  "num_div (Fin a) (Fin b) = (if b = 0 then inf_of_sign a else Fin (a / b))"
| "num_div NaN y = NaN"
| "num_div x NaN = NaN"
| "num_div (Fin a) y = Fin 0"
| "num_div PosInf (Fin b) = (if b < 0 then NegInf else PosInf)"
| "num_div NegInf (Fin b) = (if b < 0 then PosInf else NegInf)"
| "num_div x y = NaN"

text \<open>Truthiness of a number, and \<^verbatim>\<open>x || y\<close> on numbers.\<close>

fun num_truthy :: "number \<Rightarrow> bool" where
  "num_truthy (Fin a) = (a \<noteq> 0)"
| "num_truthy NaN = False"
| "num_truthy x = True"

definition num_or :: "number \<Rightarrow> number \<Rightarrow> number" where
  "num_or x y = (if num_truthy x then x else y)"

text \<open>\<^verbatim>\<open>x > 0\<close> and \<^verbatim>\<open>Number.isFinite(x)\<close>\<close>

fun num_pos :: "number \<Rightarrow> bool" where
  "num_pos (Fin a) = (0 < a)"
| "num_pos PosInf = True"
| "num_pos x = False"

fun isFinite :: "number \<Rightarrow> bool" where
  "isFinite (Fin a) = True"
| "isFinite x = False"

text \<open>\<^verbatim>\<open>10 ** dec\<close> for an integral \<open>dec\<close>\<close>

definition pow10 :: "int \<Rightarrow> rat" where
  "pow10 d = (if 0 \<le> d then 10 ^ nat d else 1 / 10 ^ nat (- d))"

text \<open>
  \<^verbatim>\<open>Number(s)\<close> for a string: the empty string is 0, a decimal literal (digits with an
  optional fraction and an optional sign) is its value. The other spellings the language
  reads (exponents, other radixes, surrounding blanks, \<^verbatim>\<open>Infinity\<close>) are outside the
  decimal amounts the quote service sends and are read as \<open>NaN\<close> here.
\<close>

definition is_digit :: "char \<Rightarrow> bool" where
  "is_digit c = (c \<in> set ''0123456789'')"

definition digits_val :: "string \<Rightarrow> nat" where
  "digits_val s = foldl (\<lambda>n c. 10 * n + (of_char c - 48)) 0 s"

definition unsigned_decimal :: "string \<Rightarrow> rat option" where
  "unsigned_decimal s =
     (let ip = takeWhile (\<lambda>c. c \<noteq> CHR ''.'') s;
          fp = drop 1 (dropWhile (\<lambda>c. c \<noteq> CHR ''.'') s)
      in if (ip = [] \<and> fp = []) \<or> \<not> list_all is_digit ip \<or> \<not> list_all is_digit fp then None
         else Some (of_nat (digits_val ip) + of_nat (digits_val fp) / 10 ^ length fp))"

definition Number :: "string \<Rightarrow> number" where
  "Number s =
     (case s of
        [] \<Rightarrow> Fin 0
      | c # r \<Rightarrow>
          if c = CHR ''-'' then (case unsigned_decimal r of Some q \<Rightarrow> Fin (- q) | None \<Rightarrow> NaN)
          else if c = CHR ''+'' then (case unsigned_decimal r of Some q \<Rightarrow> Fin q | None \<Rightarrow> NaN)
          else (case unsigned_decimal s of Some q \<Rightarrow> Fin q | None \<Rightarrow> NaN))"

text \<open>\<^verbatim>\<open>BigInt(n).toString()\<close>\<close>

fun dec_nat :: "nat \<Rightarrow> string" where
  "dec_nat n = (if n < 10 then [char_of (48 + n)] else dec_nat (n div 10) @ [char_of (48 + n mod 10)])"

declare dec_nat.simps [simp del]

definition dec_int :: "int \<Rightarrow> string" where
  "dec_int i = (if i < 0 then CHR ''-'' # dec_nat (nat (- i)) else dec_nat (nat i))"

text \<open>
  \<^verbatim>\<open>arr.slice(0, n)\<close>: a negative end counts from the end of the array.
\<close>

definition slice0 :: "'a list \<Rightarrow> int \<Rightarrow> 'a list" where
  "slice0 xs n = (if n < 0 then take (nat (int (length xs) + n)) xs else take (nat n) xs)"

subsection \<open>Configuration\<close>

text \<open>
  The parsed environment \<^verbatim>\<open>env\<close> with the two module constants \<^verbatim>\<open>offline\<close> and
  \<^verbatim>\<open>quotesEnabled\<close> computed from it at load. \<open>env_ok\<close> is what the schema
  accepts.
\<close>

record env =
  RPC_URL :: string
  TOKEN_LIMIT :: int
  JUP_API_KEY :: string
  JUP_TOKENS_CACHE_TTL_MS :: int
  QUOTE_MAX_TOKENS :: int
  QUOTE_IMPACT_USD :: rat
  QUOTE_SPREAD_USD :: rat
  QUOTE_BASE_MINT :: string
  offline :: bool
  quotesEnabled :: bool

definition env_ok :: "env \<Rightarrow> bool" where
  "env_ok e = (0 < TOKEN_LIMIT e \<and> 0 < JUP_TOKENS_CACHE_TTL_MS e \<and> 0 < QUOTE_MAX_TOKENS e
               \<and> 0 < QUOTE_IMPACT_USD e \<and> 0 < QUOTE_SPREAD_USD e)"

definition USDC_MINT :: "env \<Rightarrow> string" where
  "USDC_MINT e = QUOTE_BASE_MINT e"

record TokenRow =
  address :: string
  symbol :: "string option"
  name :: "string option"
  decimals :: "int option"
  tags :: "string list option"

subsection \<open>Requests\<close>

record quote_params =
  inputMint :: string
  outputMint :: string
  amount :: string

text \<open>
  The URL and headers of a request: the host chosen by \<^verbatim>\<open>JUP_API_KEY\<close>, the key sent
  in \<^verbatim>\<open>x-api-key\<close> when there is one, and the endpoint with its query.
\<close>

datatype request =
    TokensV2Tag string string string
  | SwapV1Quote string string quote_params

definition api_base :: "env \<Rightarrow> string" where
  "api_base e = (if JUP_API_KEY e \<noteq> [] then ''https://api.jup.ag'' else ''https://lite-api.jup.ag'')"

subsection \<open>Token-list helpers\<close>

text \<open>
  The two files under \<^verbatim>\<open>data/\<close> as the readers see them: missing, unusable (the read
  or \<^verbatim>\<open>JSON.parse\<close> throws, or the value has not the shape that is tested for), or the
  parsed content. \<open>mkdir_throws\<close> and \<open>write_throws\<close> say whether
  \<^verbatim>\<open>mkdirSync\<close> and \<^verbatim>\<open>writeFileSync\<close> fail; a failed write leaves the file as it
  was.
\<close>

datatype cache_file = NoCache | BadCache | CacheJson "int option" "TokenRow list"

datatype seed_file = NoSeed | BadSeed | SeedJson "TokenRow list"

record files =
  cache :: cache_file
  seed :: seed_file
  mkdir_throws :: bool
  write_throws :: bool

definition builtin_seed :: "env \<Rightarrow> TokenRow list" where
  "builtin_seed e =
     [\<lparr>address = ''So11111111111111111111111111111111111111112'', symbol = Some ''SOL'',
       name = Some ''Solana'', decimals = Some 9, tags = Some [''verified'']\<rparr>,
      \<lparr>address = USDC_MINT e, symbol = Some ''USDC'',
       name = Some ''USD Coin'', decimals = Some 6, tags = Some [''verified'']\<rparr>]"

definition readSeed :: "env \<Rightarrow> files \<Rightarrow> int \<Rightarrow> TokenRow list" where
  "readSeed e f limit =
     (case seed f of
        SeedJson arr \<Rightarrow> if arr \<noteq> [] then slice0 arr limit else slice0 (builtin_seed e) limit
      | _ \<Rightarrow> slice0 (builtin_seed e) limit)"

text \<open>\<open>now\<close> is the \<^verbatim>\<open>Date.now()\<close> of the age computation.\<close>

definition readCache :: "env \<Rightarrow> int \<Rightarrow> files \<Rightarrow> int \<Rightarrow> bool \<Rightarrow> TokenRow list option" where
  "readCache e now f limit soft =
     (case cache f of
        NoCache \<Rightarrow> None
      | BadCache \<Rightarrow> None
      | CacheJson raw_ts items \<Rightarrow>
          (let age = now - (case raw_ts of Some t \<Rightarrow> t | None \<Rightarrow> 0)
           in if soft then Some (slice0 items limit)
              else if age < JUP_TOKENS_CACHE_TTL_MS e then Some (slice0 items limit)
              else None))"

text \<open>
  \<^verbatim>\<open>writeFileSync(TOKENS_CACHE_PATH, JSON.stringify({ ts: Date.now(), items }))\<close> inside
  its \<^verbatim>\<open>try\<close>.
\<close>

definition write_cache :: "files \<Rightarrow> int \<Rightarrow> TokenRow list \<Rightarrow> files" where
  "write_cache f now items =
     (if write_throws f then f else f\<lparr>cache := CacheJson (Some now) items\<rparr>)"

text \<open>
  The body of a directory response: an array, an object (with its \<^verbatim>\<open>tokens\<close> field when
  that is an array), or anything else. An entry's \<open>x_id\<close> is present when
  \<^verbatim>\<open>typeof x?.id === "string"\<close>.
\<close>

record dir_item =
  x_id :: "string option"
  x_symbol :: "string option"
  x_name :: "string option"
  x_decimals :: "int option"
  x_tags :: "string list option"

datatype dir_data = DataArray "dir_item list" | DataObject "dir_item list option" | DataOther

definition dir_array :: "dir_data \<Rightarrow> dir_item list option" where
  "dir_array data =
     (case data of DataArray xs \<Rightarrow> Some xs | DataObject t \<Rightarrow> t | DataOther \<Rightarrow> None)"

text \<open>
  The \<^verbatim>\<open>filter\<close> on the type of \<^verbatim>\<open>x.id\<close> and the \<^verbatim>\<open>map\<close> to a token, for
  one entry.
\<close>

definition to_token :: "dir_item \<Rightarrow> TokenRow option" where
  "to_token x =
     (case x_id x of
        None \<Rightarrow> None
      | Some i \<Rightarrow> Some \<lparr>address = i, symbol = x_symbol x, name = x_name x,
                        decimals = x_decimals x, tags = x_tags x\<rparr>)"

datatype error = MkdirFailed | EndpointRejected | SqliteConstraint

text \<open>The \<^verbatim>\<open>try\<close> block around the directory request.\<close>

definition fetch_verified ::
  "(request \<Rightarrow> nat \<Rightarrow> dir_data attempt) \<Rightarrow> (nat \<Rightarrow> rat) \<Rightarrow> env \<Rightarrow> TokenRow list option" where
  "fetch_verified get rnd e =
     (case fst (fetchJsonWithBackoff get rnd
                  (TokensV2Tag (api_base e) (JUP_API_KEY e) ''verified'') 3 1500) of
        Inl err \<Rightarrow> None
      | Inr data \<Rightarrow>
          (case dir_array data of
             None \<Rightarrow> None
           | Some arr \<Rightarrow>
               if arr \<noteq> [] then Some (List.map_filter to_token arr)
               else None))"

text \<open>
  \<open>t_check\<close> and \<open>t_write\<close> are the clock readings of the cache reads and of the
  final write (a soft read computes the age and does not use it).
\<close>

definition loadVerifiedTokens ::
  "env \<Rightarrow> (request \<Rightarrow> nat \<Rightarrow> dir_data attempt) \<Rightarrow> (nat \<Rightarrow> rat) \<Rightarrow> int \<Rightarrow> int \<Rightarrow>
   files \<Rightarrow> int \<Rightarrow> (error + TokenRow list) \<times> files" where
  "loadVerifiedTokens e get rnd t_check t_write f limit =
     (if mkdir_throws f then (Inl MkdirFailed, f)
      else if offline e then
        (let cached = (case readCache e t_check f limit True of
                         Some c \<Rightarrow> c | None \<Rightarrow> readSeed e f limit)
         in (Inr cached, write_cache f t_write cached))
      else
        (case readCache e t_check f limit False of
           Some cached \<Rightarrow> (Inr cached, f)
         | None \<Rightarrow>
             (let tokens = fetch_verified get rnd e;
                  fallback = (case readCache e t_check f limit True of
                                Some c \<Rightarrow> c | None \<Rightarrow> readSeed e f limit);
                  finalList = slice0 (case tokens of
                                        Some ts \<Rightarrow> if ts \<noteq> [] then ts else fallback
                                      | None \<Rightarrow> fallback) limit
              in (Inr finalList, write_cache f t_write finalList))))"

subsection \<open>The store (db.ts)\<close>

record SnapshotRow =
  ts :: int
  mint :: string
  row_symbol :: "string option"
  row_decimals :: int
  mint_authority_null :: int
  freeze_authority_null :: int
  token2022_danger :: int
  lp_verified :: int
  tvl_usd :: "number option"
  impact_1k_pct :: "number option"
  spread_pct :: "number option"
  r_1m :: number
  r_5m :: number
  r_15m :: number
  volume_5m :: number
  unique_buyers_5m :: int
  net_buy_usd_5m :: number
  top10_pct :: "number option"
  flags_json :: "string option"

record PriceRow =
  price_ts :: int
  price_mint :: string
  price_usd :: number

record TokenDirRow =
  tok_mint :: string
  tok_symbol :: "string option"
  tok_name :: "string option"
  tok_decimals :: int
  verified :: int

text \<open>
  The four tables, each a list of rows in insertion order. Rows are kept as they are
  bound; failures of the storage itself, other than a violated key, are not represented.
\<close>

record DB =
  tbl_snapshots :: "SnapshotRow list"
  tbl_prices :: "PriceRow list"
  tbl_tokens :: "TokenDirRow list"
  tbl_meta :: "(string \<times> string) list"

datatype table = Snapshots | Prices

definition setMeta :: "DB \<Rightarrow> string \<Rightarrow> string \<Rightarrow> DB" where
  "setMeta db k v =
     db\<lparr>tbl_meta := (if k \<in> fst ` set (tbl_meta db)
                      then map (\<lambda>(k', v'). if k' = k then (k', v) else (k', v')) (tbl_meta db)
                      else tbl_meta db @ [(k, v)])\<rparr>"

definition pruneOlderThanMs :: "DB \<Rightarrow> int \<Rightarrow> DB" where
  "pruneOlderThanMs db olderThanMs =
     db\<lparr>tbl_snapshots := filter (\<lambda>r. \<not> ts r < olderThanMs) (tbl_snapshots db),
        tbl_prices := filter (\<lambda>p. \<not> price_ts p < olderThanMs) (tbl_prices db)\<rparr>"

definition countRows :: "DB \<Rightarrow> table \<Rightarrow> int" where
  "countRows db t =
     (case t of Snapshots \<Rightarrow> int (length (tbl_snapshots db))
              | Prices \<Rightarrow> int (length (tbl_prices db)))"

text \<open>One \<^verbatim>\<open>INSERT ... ON CONFLICT(mint) DO UPDATE\<close>.\<close>

definition upsert_token :: "TokenDirRow list \<Rightarrow> TokenDirRow \<Rightarrow> TokenDirRow list" where
  "upsert_token tbl r =
     (if tok_mint r \<in> tok_mint ` set tbl
      then map (\<lambda>old. if tok_mint old = tok_mint r then r else old) tbl
      else tbl @ [r])"

definition upsertTokens :: "DB \<Rightarrow> TokenDirRow list \<Rightarrow> DB" where
  "upsertTokens db rows =
     (if rows = [] then db else db\<lparr>tbl_tokens := foldl upsert_token (tbl_tokens db) rows\<rparr>)"

text \<open>
  The transaction of plain \<^verbatim>\<open>INSERT\<close>s: a row whose key \<open>(ts, mint)\<close> is already in
  the table makes the statement throw, and the transaction leaves the table as it was.
\<close>

fun insert_snapshot_rows :: "SnapshotRow list \<Rightarrow> SnapshotRow list \<Rightarrow> SnapshotRow list option" where
  "insert_snapshot_rows tbl [] = Some tbl"
| "insert_snapshot_rows tbl (r # rs) =
     (if (ts r, mint r) \<in> (\<lambda>x. (ts x, mint x)) ` set tbl then None
      else insert_snapshot_rows (tbl @ [r]) rs)"

definition insertSnapshots :: "DB \<Rightarrow> SnapshotRow list \<Rightarrow> error + DB" where
  "insertSnapshots db rows =
     (if rows = [] then Inr db
      else (case insert_snapshot_rows (tbl_snapshots db) rows of
              None \<Rightarrow> Inl SqliteConstraint
            | Some tbl \<Rightarrow> Inr (db\<lparr>tbl_snapshots := tbl\<rparr>)))"

text \<open>One \<^verbatim>\<open>INSERT OR REPLACE\<close>.\<close>

definition replace_price :: "PriceRow list \<Rightarrow> PriceRow \<Rightarrow> PriceRow list" where
  "replace_price tbl r =
     filter (\<lambda>p. \<not> (price_ts p = price_ts r \<and> price_mint p = price_mint r)) tbl @ [r]"

definition insertPrices :: "DB \<Rightarrow> PriceRow list \<Rightarrow> DB" where
  "insertPrices db rows =
     (if rows = [] then db else db\<lparr>tbl_prices := foldl replace_price (tbl_prices db) rows\<rparr>)"

subsection \<open>Jupiter helpers\<close>

datatype str_or_num = Str string | Num number

definition to_number :: "str_or_num \<Rightarrow> number" where
  "to_number v = (case v of Str s \<Rightarrow> Number s | Num n \<Rightarrow> n)"

text \<open>
  A quote response. A missing \<^verbatim>\<open>outAmount\<close> is the empty string (both are falsy); a
  missing or null \<^verbatim>\<open>priceImpactPct\<close> is \<open>None\<close>.
\<close>

record QuoteResp =
  resp_inputMint :: string
  resp_outputMint :: string
  inAmount :: string
  outAmount :: string
  priceImpactPct :: "str_or_num option"

definition jupQuote ::
  "env \<Rightarrow> (request \<Rightarrow> nat \<Rightarrow> QuoteResp attempt) \<Rightarrow> (nat \<Rightarrow> rat) \<Rightarrow> quote_params \<Rightarrow>
   QuoteResp option" where
  "jupQuote e get rnd ps =
     (case fst (fetchJsonWithBackoff get rnd (SwapV1Quote (api_base e) (JUP_API_KEY e) ps) 3 1500) of
        Inr data \<Rightarrow> Some data
      | Inl err \<Rightarrow> None)"

subsection \<open>The snapshot run\<close>

text \<open>
  What the ledger answers: \<^verbatim>\<open>getAccountInfo\<close> throws (as does
  \<^verbatim>\<open>new PublicKey\<close> on a malformed address), finds no account, or returns one, of
  which only whether its owner is the Token-2022 program is read; \<^verbatim>\<open>getMint\<close> throws
  or returns the mint. \<open>mint_decimals\<close> is absent where \<^verbatim>\<open>mintInfo.decimals\<close> is
  null or undefined, the case that \<^verbatim>\<open>?? 0\<close> covers; an authority is absent when it
  is \<^verbatim>\<open>null\<close>.
\<close>

datatype acc_result = AccThrows | AccNull | AccInfo bool

record mint_info =
  mint_decimals :: "int option"
  mintAuthority :: "string option"
  freezeAuthority :: "string option"

datatype mint_result = MintThrows | MintInfo mint_info

datatype leg = Impact | Buy | Sell

text \<open>
  Everything a run reads from outside. The ledger and the quote service are asked by the
  task (its position in the list it is mapped over) and by what is asked, so that two
  requests for one address need not agree. \<open>connect_throws\<close> says that the
  constructor of the connection throws for a reason of the library's other than the
  prefix of the URL.
\<close>

record world =
  date_now :: int
  t_check :: int
  t_write :: int
  disk :: files
  tokens_http :: "request \<Rightarrow> nat \<Rightarrow> dir_data attempt"
  tokens_random :: "nat \<Rightarrow> rat"
  connect_throws :: bool
  getAccountInfo :: "nat \<Rightarrow> string \<Rightarrow> acc_result"
  getMint :: "nat \<Rightarrow> string \<Rightarrow> bool \<Rightarrow> mint_result"
  quote_http :: "nat \<Rightarrow> leg \<Rightarrow> request \<Rightarrow> nat \<Rightarrow> QuoteResp attempt"
  quote_random :: "nat \<Rightarrow> leg \<Rightarrow> nat \<Rightarrow> rat"

record pruned =
  pruned_snapshots :: int
  pruned_prices :: int

record SnapshotResult =
  res_ts :: int
  savedTokens :: int
  prunedRows :: "pruned option"

text \<open>
  \<^verbatim>\<open>(typeof t.decimals === "number" ? t.decimals : mintInfo.decimals) ?? 0\<close>
\<close>

definition chosen_decimals :: "TokenRow \<Rightarrow> mint_info \<Rightarrow> int" where
  "chosen_decimals t mi =
     (case decimals t of
        Some d \<Rightarrow> d
      | None \<Rightarrow> (case mint_decimals mi of Some d \<Rightarrow> d | None \<Rightarrow> 0))"

text \<open>
  One task of the on-chain fan-out, for the token \<open>t\<close> at position \<open>k\<close>: the two rows
  it pushes, or nothing.
\<close>

definition onchain_task :: "world \<Rightarrow> int \<Rightarrow> nat \<Rightarrow> TokenRow \<Rightarrow> (SnapshotRow \<times> TokenDirRow) option" where
  "onchain_task w epoch k t =
     (case getAccountInfo w k (address t) of
        AccThrows \<Rightarrow> None
      | AccNull \<Rightarrow> None
      | AccInfo isToken2022 \<Rightarrow>
          (case getMint w k (address t) isToken2022 of
             MintThrows \<Rightarrow> None
           | MintInfo mintInfo \<Rightarrow>
               (let dcm = chosen_decimals t mintInfo;
                    mintAuthorityNull = (if mintAuthority mintInfo = None then 1 else 0);
                    freezeAuthorityNull = (if freezeAuthority mintInfo = None then 1 else 0)
                in Some
                  (\<lparr>ts = epoch, mint = address t, row_symbol = symbol t, row_decimals = dcm,
                    mint_authority_null = mintAuthorityNull,
                    freeze_authority_null = freezeAuthorityNull,
                    token2022_danger = 0, lp_verified = 1,
                    tvl_usd = None, impact_1k_pct = None, spread_pct = None,
                    r_1m = Fin 0, r_5m = Fin 0, r_15m = Fin 0, volume_5m = Fin 0,
                    unique_buyers_5m = 0, net_buy_usd_5m = Fin 0,
                    top10_pct = None, flags_json = None\<rparr>,
                   \<lparr>tok_mint = address t, tok_symbol = symbol t, tok_name = name t,
                    tok_decimals = dcm, verified = 1\<rparr>))))"

text \<open>The lookup of the token at position \<open>k\<close> throws or finds no account.\<close>

definition lookup_fails :: "world \<Rightarrow> nat \<Rightarrow> TokenRow \<Rightarrow> bool" where
  "lookup_fails w k t =
     (case getAccountInfo w k (address t) of
        AccThrows \<Rightarrow> True
      | AccNull \<Rightarrow> True
      | AccInfo isToken2022 \<Rightarrow> getMint w k (address t) isToken2022 = MintThrows)"

record metrics =
  m_impact_1k_pct :: "number option"
  m_spread_pct :: "number option"

text \<open>
  \<^verbatim>\<open>BigInt(Math.round(usd * 1_000_000))\<close>. A product beyond the range of doubles is
  \<^verbatim>\<open>Infinity\<close> there, and \<^verbatim>\<open>BigInt\<close> throws a \<^verbatim>\<open>RangeError\<close> on it: \<open>None\<close>.
  The bound is the least magnitude that rounds to \<^verbatim>\<open>Infinity\<close>.
\<close>

definition double_overflows :: "rat \<Rightarrow> bool" where
  "double_overflows q = (2 ^ 1024 - 2 ^ 970 \<le> \<bar>q\<bar>)"

definition usdc_amount :: "rat \<Rightarrow> int option" where
  "usdc_amount usd =
     (if double_overflows (usd * 1000000) then None else Some (round (usd * 1000000)))"

text \<open>
  What the quote task for \<open>t\<close> at position \<open>k\<close> gets for its impact request and for
  its buy-leg request: nothing when the task threw before sending it or when
  \<^verbatim>\<open>jupQuote\<close> returned \<^verbatim>\<open>null\<close>. The sell-leg request is sent with the output
  amount of the buy leg.
\<close>

definition impact_quote :: "env \<Rightarrow> world \<Rightarrow> nat \<Rightarrow> TokenRow \<Rightarrow> QuoteResp option" where
  "impact_quote e w k t =
     (case usdc_amount (QUOTE_IMPACT_USD e) of
        None \<Rightarrow> None
      | Some buyAmountUSDC \<Rightarrow>
          jupQuote e (quote_http w k Impact) (quote_random w k Impact)
            \<lparr>inputMint = USDC_MINT e, outputMint = address t,
             amount = dec_int buyAmountUSDC\<rparr>)"

definition buy_quote :: "env \<Rightarrow> world \<Rightarrow> nat \<Rightarrow> TokenRow \<Rightarrow> QuoteResp option" where
  "buy_quote e w k t =
     (case usdc_amount (QUOTE_IMPACT_USD e) of
        None \<Rightarrow> None
      | Some buyAmountUSDC \<Rightarrow>
          (case usdc_amount (QUOTE_SPREAD_USD e) of
             None \<Rightarrow> None
           | Some smallUsd \<Rightarrow>
               jupQuote e (quote_http w k Buy) (quote_random w k Buy)
                 \<lparr>inputMint = USDC_MINT e, outputMint = address t,
                  amount = dec_int smallUsd\<rparr>))"

definition sell_quote :: "env \<Rightarrow> world \<Rightarrow> nat \<Rightarrow> TokenRow \<Rightarrow> string \<Rightarrow> QuoteResp option" where
  "sell_quote e w k t amt =
     jupQuote e (quote_http w k Sell) (quote_random w k Sell)
       \<lparr>inputMint = address t, outputMint = USDC_MINT e, amount = amt\<rparr>"

text \<open>A quote that fails the test \<^verbatim>\<open>q && q.outAmount\<close>.\<close>

definition no_output :: "QuoteResp option \<Rightarrow> bool" where
  "no_output q = (case q of None \<Rightarrow> True | Some r \<Rightarrow> outAmount r = [])"

text \<open>
  The prices of the round trip, from the output amounts of the two legs:
  \<^verbatim>\<open>outTok = Number(qBuy.outAmount) / 10 ** dec\<close>,
  \<^verbatim>\<open>pBuy = Number(env.QUOTE_SPREAD_USD) / (outTok || 1e-12)\<close>,
  \<^verbatim>\<open>outUsd = Number(qSell.outAmount) / 1e6\<close>, \<^verbatim>\<open>inTok\<close> as \<^verbatim>\<open>outTok\<close>,
  \<^verbatim>\<open>pSell = (outUsd || 0) / (inTok || 1e-12)\<close> and \<^verbatim>\<open>mid = (pBuy + pSell) / 2\<close>.
\<close>

definition tiny :: number where
  "tiny = Fin (1 / 10 ^ 12)"

definition pBuy_of :: "env \<Rightarrow> int \<Rightarrow> string \<Rightarrow> number" where
  "pBuy_of e dec buyOut =
     (let outTok = num_div (Number buyOut) (Fin (pow10 dec))
      in num_div (Fin (QUOTE_SPREAD_USD e)) (num_or outTok tiny))"

definition pSell_of :: "int \<Rightarrow> string \<Rightarrow> string \<Rightarrow> number" where
  "pSell_of dec buyOut sellOut =
     (let outUsd = num_div (Number sellOut) (Fin 1000000);
          inTok = num_div (Number buyOut) (Fin (pow10 dec))
      in num_div (num_or outUsd (Fin 0)) (num_or inTok tiny))"

definition mid_of :: "number \<Rightarrow> number \<Rightarrow> number" where
  "mid_of pBuy pSell = num_div (num_add pBuy pSell) (Fin 2)"

text \<open>
  The round trip of one quote task after the buy-leg quote \<open>qBuy\<close> has come back: the
  spread and the price rows pushed.
\<close>

definition round_trip ::
  "env \<Rightarrow> world \<Rightarrow> int \<Rightarrow> nat \<Rightarrow> TokenRow \<Rightarrow> int \<Rightarrow> QuoteResp option \<Rightarrow>
   number option \<times> PriceRow list" where
  "round_trip e w epoch k t dec qBuy =
     (case qBuy of
        None \<Rightarrow> (None, [])
      | Some b \<Rightarrow>
          if outAmount b = [] then (None, [])
          else
            (let pBuy = pBuy_of e dec (outAmount b);
                 qSell = sell_quote e w k t (outAmount b)
             in (case qSell of
                   None \<Rightarrow> (None, [])
                 | Some sl \<Rightarrow>
                     if outAmount sl = [] then (None, [])
                     else
                       (let pSell = pSell_of dec (outAmount b) (outAmount sl);
                            mid = mid_of pBuy pSell
                        in if num_pos mid \<and> isFinite mid
                           then (Some (num_mul (num_div (num_sub pBuy pSell) mid) (Fin 100)),
                                 [\<lparr>price_ts = epoch, price_mint = address t, price_usd = mid\<rparr>])
                           else (None, [])))))"

text \<open>
  The \<^verbatim>\<open>catch\<close> of a quote task: both metrics null. The two throws it catches come
  before any price row is pushed.
\<close>

definition caught :: "TokenRow \<Rightarrow> (string \<times> metrics) \<times> PriceRow list" where
  "caught t = ((address t, \<lparr>m_impact_1k_pct = None, m_spread_pct = None\<rparr>), [])"

text \<open>
  One task of the quote fan-out: the entry it writes to \<^verbatim>\<open>metricsMap\<close> and the price
  rows it pushes. In the \<^verbatim>\<open>try\<close> block the two \<^verbatim>\<open>BigInt\<close> conversions can throw,
  the first before any request is sent, the second after the impact request;
  \<^verbatim>\<open>jupQuote\<close> catches its own failures.
\<close>

definition quote_task ::
  "env \<Rightarrow> world \<Rightarrow> int \<Rightarrow> nat \<Rightarrow> TokenRow \<Rightarrow> (string \<times> metrics) \<times> PriceRow list" where
  "quote_task e w epoch k t =
     (let dec = (case decimals t of Some d \<Rightarrow> d | None \<Rightarrow> 0)
      in (case usdc_amount (QUOTE_IMPACT_USD e) of
            None \<Rightarrow> caught t
          | Some buyAmountUSDC \<Rightarrow>
              (let qi = jupQuote e (quote_http w k Impact) (quote_random w k Impact)
                          \<lparr>inputMint = USDC_MINT e, outputMint = address t,
                           amount = dec_int buyAmountUSDC\<rparr>;
                   impactPct = (case qi of
                                  None \<Rightarrow> None
                                | Some q \<Rightarrow> (case priceImpactPct q of
                                              None \<Rightarrow> None
                                            | Some v \<Rightarrow> Some (to_number v)))
               in (case usdc_amount (QUOTE_SPREAD_USD e) of
                     None \<Rightarrow> caught t
                   | Some smallUsd \<Rightarrow>
                       (let qBuy = jupQuote e (quote_http w k Buy) (quote_random w k Buy)
                                     \<lparr>inputMint = USDC_MINT e, outputMint = address t,
                                      amount = dec_int smallUsd\<rparr>;
                            rt = round_trip e w epoch k t dec qBuy
                        in ((address t, \<lparr>m_impact_1k_pct = impactPct, m_spread_pct = fst rt\<rparr>),
                            snd rt))))))"

definition toQuote :: "env \<Rightarrow> TokenRow list \<Rightarrow> TokenRow list" where
  "toQuote e tokens =
     slice0 (filter (\<lambda>t. address t \<noteq> USDC_MINT e) tokens)
            (min (QUOTE_MAX_TOKENS e) (int (length tokens)))"

text \<open>The body of the merge loop; a later write to \<^verbatim>\<open>metricsMap\<close> replaces an earlier one.\<close>

definition apply_metrics :: "(string \<times> metrics) list \<Rightarrow> SnapshotRow \<Rightarrow> SnapshotRow" where
  "apply_metrics metricsMap r =
     (case map_of (rev metricsMap) (mint r) of
        None \<Rightarrow> r
      | Some m \<Rightarrow>
          r\<lparr>impact_1k_pct := (case m_impact_1k_pct m of Some v \<Rightarrow> Some v | None \<Rightarrow> impact_1k_pct r),
            spread_pct := (case m_spread_pct m of Some v \<Rightarrow> Some v | None \<Rightarrow> spread_pct r)\<rparr>)"

record batch =
  tokenRows :: "TokenDirRow list"
  rows :: "SnapshotRow list"
  priceRows :: "PriceRow list"

text \<open>Steps 3 to 5 up to the writes: the three arrays handed to the store.\<close>

definition assemble :: "env \<Rightarrow> world \<Rightarrow> int \<Rightarrow> TokenRow list \<Rightarrow> batch" where
  "assemble e w epoch tokens =
     (let found = List.map_filter (\<lambda>(k, t). onchain_task w epoch k t) (enumerate 0 tokens);
          quoted = (if \<not> offline e \<and> quotesEnabled e
                    then map (\<lambda>(k, t). quote_task e w epoch k t) (enumerate 0 (toQuote e tokens))
                    else []);
          metricsMap = map fst quoted;
          base = \<lparr>price_ts = epoch, price_mint = USDC_MINT e, price_usd = Fin 1\<rparr>
      in \<lparr>tokenRows = map snd found,
          rows = (if metricsMap \<noteq> [] then map (apply_metrics metricsMap) (map fst found)
                  else map fst found),
          priceRows = concat (map snd quoted) @ [base]\<rparr>)"

definition persist :: "DB \<Rightarrow> batch \<Rightarrow> (error + unit) \<times> DB" where
  "persist db b =
     (let db1 = (if tokenRows b \<noteq> [] then upsertTokens db (tokenRows b) else db)
      in (case (if rows b \<noteq> [] then insertSnapshots db1 (rows b) else Inr db1) of
            Inl err \<Rightarrow> (Inl err, db1)
          | Inr db2 \<Rightarrow>
              (Inr (), if priceRows b \<noteq> [] then insertPrices db2 (priceRows b) else db2)))"

text \<open>
  Step 1, with its \<^verbatim>\<open>catch\<close>. The files are left as \<^verbatim>\<open>loadVerifiedTokens\<close>
  leaves them; nothing later in the run reads them.
\<close>

definition resolved :: "env \<Rightarrow> world \<Rightarrow> TokenRow list" where
  "resolved e w =
     (case fst (loadVerifiedTokens e (tokens_http w) (tokens_random w) (t_check w) (t_write w)
                  (disk w) (TOKEN_LIMIT e)) of
        Inl err \<Rightarrow> []
      | Inr tokens \<Rightarrow> tokens)"

definition cutoff_of :: "int \<Rightarrow> int" where
  "cutoff_of epoch = epoch - 48 * 60 * 60 * 1000"

text \<open>Step 2: retention and metadata.\<close>

definition retain :: "env \<Rightarrow> int \<Rightarrow> DB \<Rightarrow> pruned \<times> DB" where
  "retain e epoch db =
     (let beforeSnaps = countRows db Snapshots;
          beforePrices = countRows db Prices;
          db1 = pruneOlderThanMs db (cutoff_of epoch);
          afterSnaps = countRows db1 Snapshots;
          afterPrices = countRows db1 Prices;
          db2 = setMeta db1 ''last_snapshot_ts'' (dec_int epoch);
          db3 = setMeta db2 ''rpc_url'' (RPC_URL e);
          db4 = setMeta db3 ''token_limit'' (dec_int (TOKEN_LIMIT e))
      in (\<lparr>pruned_snapshots = beforeSnaps - afterSnaps,
           pruned_prices = beforePrices - afterPrices\<rparr>, db4))"

text \<open>
  \<^verbatim>\<open>new Connection(env.RPC_URL, "confirmed")\<close> throws unless the URL begins with
  \<^verbatim>\<open>http:\<close> or \<^verbatim>\<open>https:\<close> (the library tests it against
  \<^verbatim>\<open>/^https?:/\<close>).
\<close>

definition endpoint_ok :: "string \<Rightarrow> bool" where
  "endpoint_ok url = (take 5 url = ''http:'' \<or> take 6 url = ''https:'')"

text \<open>
  The run: what \<^verbatim>\<open>snapshot\<close> resolves to (\<open>Inr\<close>) or rejects with (\<open>Inl\<close>), and
  the store afterwards. The connection is made after the retention step and the return
  for an empty universe, outside every \<^verbatim>\<open>try\<close>.
\<close>

definition snapshot :: "env \<Rightarrow> world \<Rightarrow> DB \<Rightarrow> (error + SnapshotResult) \<times> DB" where
  "snapshot e w db =
     (let epoch = date_now w;
          tokens = resolved e w;
          (pr, db1) = retain e epoch db
      in if tokens = []
         then (Inr \<lparr>res_ts = epoch, savedTokens = 0, prunedRows = Some pr\<rparr>, db1)
         else if \<not> endpoint_ok (RPC_URL e) \<or> connect_throws w then (Inl EndpointRejected, db1)
         else
           (let b = assemble e w epoch tokens
            in (case persist db1 b of
                  (Inl err, db2) \<Rightarrow> (Inl err, db2)
                | (Inr u, db2) \<Rightarrow>
                    (Inr \<lparr>res_ts = epoch, savedTokens = int (length (rows b)), prunedRows = Some pr\<rparr>,
                     db2))))"

subsection \<open>Example environments\<close>

text \<open>A server that answers the attempts of a call with \<open>xs\<close>, in order, and with \<open>d\<close> after them.\<close>

definition replay :: "'a attempt list \<Rightarrow> 'a attempt \<Rightarrow> 'q \<Rightarrow> nat \<Rightarrow> 'a attempt" where
  "replay xs d req i = (if i < length xs then xs ! i else d)"

definition ex_req :: request where
  "ex_req = TokensV2Tag ''https://lite-api.jup.ag'' [] ''verified''"

definition err503 :: http_error where "err503 = HttpError (Some 503) ''unavailable''"
definition err429 :: http_error where "err429 = HttpError (Some 429) ''slow down''"
definition err404 :: http_error where "err404 = HttpError (Some 404) ''not found''"
definition err_net :: http_error where "err_net = HttpError None ''ECONNRESET''"

definition ex_errs :: "nat \<Rightarrow> http_error" where
  "ex_errs i = (if i = 1 then err429 else err503)"

definition rnd_half :: "nat \<Rightarrow> rat" where "rnd_half i = 1 / 2"

definition get_recovering :: "request \<Rightarrow> nat \<Rightarrow> dir_data attempt" where
  "get_recovering = replay [Rejected err503, Rejected err429] (Response DataOther)"

definition get_gone :: "request \<Rightarrow> nat \<Rightarrow> dir_data attempt" where
  "get_gone = replay [Rejected err503] (Rejected err_net)"

definition get_down :: "request \<Rightarrow> nat \<Rightarrow> dir_data attempt" where
  "get_down = replay [Rejected err503, Rejected err429] (Rejected err503)"

text \<open>
  A configuration with the defaults of the schema, online and with quotes on, and a
  universe of the quote-base asset and one other token \<open>X\<close>.
\<close>

definition ex_env :: env where
  "ex_env = \<lparr>RPC_URL = ''https://api.mainnet-beta.solana.com'', TOKEN_LIMIT = 50,
             JUP_API_KEY = [], JUP_TOKENS_CACHE_TTL_MS = 3600000, QUOTE_MAX_TOKENS = 25,
             QUOTE_IMPACT_USD = 1000, QUOTE_SPREAD_USD = 20,
             QUOTE_BASE_MINT = ''EPjFWdd5AufqSSqeM2qN1xzybapC8G4wEGGkZwyTDt1v'',
             offline = False, quotesEnabled = True\<rparr>"

definition ex_base :: TokenRow where
  "ex_base = \<lparr>address = ''EPjFWdd5AufqSSqeM2qN1xzybapC8G4wEGGkZwyTDt1v'', symbol = Some ''USDC'',
              name = Some ''USD Coin'', decimals = Some 6, tags = Some [''verified'']\<rparr>"

definition ex_x :: TokenRow where
  "ex_x = \<lparr>address = ''X1111111111111111111111111111111111111111'', symbol = Some ''X'',
           name = Some ''Token X'', decimals = Some 9, tags = Some [''verified'']\<rparr>"

text \<open>A cache file written 1000 seconds before the run, holding that universe.\<close>

definition ex_disk :: files where
  "ex_disk = \<lparr>cache = CacheJson (Some 1699999000000) [ex_base, ex_x], seed = NoSeed,
              mkdir_throws = False, write_throws = False\<rparr>"

definition mint_usdc :: mint_info where
  "mint_usdc = \<lparr>mint_decimals = Some 6, mintAuthority = Some ''authority'', freezeAuthority = None\<rparr>"

text \<open>The ledger knows the quote-base asset only; every other lookup throws.\<close>

definition ex_accounts :: "nat \<Rightarrow> string \<Rightarrow> acc_result" where
  "ex_accounts k a =
     (if a = ''EPjFWdd5AufqSSqeM2qN1xzybapC8G4wEGGkZwyTDt1v'' then AccInfo False else AccThrows)"

definition ex_mints :: "nat \<Rightarrow> string \<Rightarrow> bool \<Rightarrow> mint_result" where
  "ex_mints k a isToken2022 = MintInfo mint_usdc"

definition quote_of :: "string \<Rightarrow> str_or_num option \<Rightarrow> QuoteResp" where
  "quote_of out imp = \<lparr>resp_inputMint = ''in'', resp_outputMint = ''out'', inAmount = ''1'',
                        outAmount = out, priceImpactPct = imp\<rparr>"

text \<open>
  A quote service that sells 4 X for 20 USDC and buys them back for 19 USDC; the rate
  limit hits the first attempt of every request.
\<close>

definition ex_quotes :: "nat \<Rightarrow> leg \<Rightarrow> request \<Rightarrow> nat \<Rightarrow> QuoteResp attempt" where
  "ex_quotes k l =
     replay [Rejected err429]
       (Response (case l of
                    Impact \<Rightarrow> quote_of ''199000000000'' (Some (Str ''0.005''))
                  | Buy \<Rightarrow> quote_of ''4000000000'' None
                  | Sell \<Rightarrow> quote_of ''19000000'' None))"

definition ex_jitter :: "nat \<Rightarrow> leg \<Rightarrow> nat \<Rightarrow> rat" where
  "ex_jitter k l i = 1 / 2"

definition ex_world :: world where
  "ex_world = \<lparr>date_now = 1700000000000, t_check = 1700000000001, t_write = 1700000000002,
               disk = ex_disk, tokens_http = get_down, tokens_random = rnd_half,
               connect_throws = False, getAccountInfo = ex_accounts, getMint = ex_mints,
               quote_http = ex_quotes, quote_random = ex_jitter\<rparr>"

text \<open>A quote service whose every quote has the output amount \<^verbatim>\<open>"0"\<close>.\<close>

definition zero_quotes :: "nat \<Rightarrow> leg \<Rightarrow> request \<Rightarrow> nat \<Rightarrow> QuoteResp attempt" where
  "zero_quotes k l = replay [] (Response (quote_of ''0'' None))"

definition zero_world :: world where
  "zero_world = ex_world\<lparr>quote_http := zero_quotes\<rparr>"

text \<open>A quote service that answers the buy leg with \<^verbatim>\<open>"0"\<close> and rejects the sell leg.\<close>

definition refusing_quotes :: "nat \<Rightarrow> leg \<Rightarrow> request \<Rightarrow> nat \<Rightarrow> QuoteResp attempt" where
  "refusing_quotes k l =
     (case l of
        Sell \<Rightarrow> replay [] (Rejected (HttpError (Some 400) ''bad amount''))
      | _ \<Rightarrow> replay [] (Response (quote_of ''0'' None)))"

definition refusing_world :: world where
  "refusing_world = ex_world\<lparr>quote_http := refusing_quotes\<rparr>"

text \<open>A store with one snapshot row and one price row at each of two earlier epochs.\<close>

definition row_at :: "int \<Rightarrow> SnapshotRow" where
  "row_at t = \<lparr>ts = t, mint = ''X1111111111111111111111111111111111111111'', row_symbol = Some ''X'',
              row_decimals = 9, mint_authority_null = 1, freeze_authority_null = 1,
              token2022_danger = 0, lp_verified = 1, tvl_usd = None, impact_1k_pct = None,
              spread_pct = None, r_1m = Fin 0, r_5m = Fin 0, r_15m = Fin 0, volume_5m = Fin 0,
              unique_buyers_5m = 0, net_buy_usd_5m = Fin 0, top10_pct = None, flags_json = None\<rparr>"

definition price_at :: "int \<Rightarrow> PriceRow" where
  "price_at t = \<lparr>price_ts = t, price_mint = ''X1111111111111111111111111111111111111111'',
                 price_usd = Fin 5\<rparr>"

definition empty_db :: DB where
  "empty_db = \<lparr>tbl_snapshots = [], tbl_prices = [], tbl_tokens = [], tbl_meta = []\<rparr>"

definition old_db :: DB where
  "old_db = \<lparr>tbl_snapshots = [row_at (1700000000000 - 49 * 3600000), row_at (1700000000000 - 47 * 3600000)],
             tbl_prices = [price_at (1700000000000 - 49 * 3600000), price_at (1700000000000 - 47 * 3600000)],
             tbl_tokens = [], tbl_meta = []\<rparr>"

text \<open>The rows that the run in \<open>ex_world\<close> builds for the quote-base asset.\<close>

definition ex_base_row :: "int \<Rightarrow> SnapshotRow" where
  "ex_base_row epoch =
     \<lparr>ts = epoch, mint = address ex_base, row_symbol = Some ''USDC'', row_decimals = 6,
      mint_authority_null = 0, freeze_authority_null = 1, token2022_danger = 0,
      lp_verified = 1, tvl_usd = None, impact_1k_pct = None, spread_pct = None,
      r_1m = Fin 0, r_5m = Fin 0, r_15m = Fin 0, volume_5m = Fin 0, unique_buyers_5m = 0,
      net_buy_usd_5m = Fin 0, top10_pct = None, flags_json = None\<rparr>"

definition ex_base_entry :: TokenDirRow where
  "ex_base_entry = \<lparr>tok_mint = address ex_base, tok_symbol = Some ''USDC'',
                    tok_name = Some ''USD Coin'', tok_decimals = 6, verified = 1\<rparr>"

text \<open>The same configuration with quotes off.\<close>

definition quiet_env :: env where
  "quiet_env = ex_env\<lparr>quotesEnabled := False\<rparr>"

text \<open>A ledger on which no account is found, and one on which every account is.\<close>

definition no_accounts :: "nat \<Rightarrow> string \<Rightarrow> acc_result" where
  "no_accounts k a = AccNull"

definition dark_world :: world where
  "dark_world = ex_world\<lparr>getAccountInfo := no_accounts\<rparr>"

definition all_accounts :: "nat \<Rightarrow> string \<Rightarrow> acc_result" where
  "all_accounts k a = AccInfo False"

definition open_world :: world where
  "open_world = ex_world\<lparr>getAccountInfo := all_accounts\<rparr>"

text \<open>
  A token that the directory lists without decimals, and the rows that the lookups of
  \<open>X\<close> and of this token give in \<open>open_world\<close>, where the mint read has 6 decimals.
\<close>

definition ex_bare :: TokenRow where
  "ex_bare = \<lparr>address = ''B1111111111111111111111111111111111111111'', symbol = None,
              name = None, decimals = None, tags = None\<rparr>"

definition found_row :: "int \<Rightarrow> TokenRow \<Rightarrow> int \<Rightarrow> SnapshotRow" where
  "found_row epoch t dcm =
     \<lparr>ts = epoch, mint = address t, row_symbol = symbol t, row_decimals = dcm,
      mint_authority_null = 0, freeze_authority_null = 1, token2022_danger = 0,
      lp_verified = 1, tvl_usd = None, impact_1k_pct = None, spread_pct = None,
      r_1m = Fin 0, r_5m = Fin 0, r_15m = Fin 0, volume_5m = Fin 0, unique_buyers_5m = 0,
      net_buy_usd_5m = Fin 0, top10_pct = None, flags_json = None\<rparr>"

definition found_entry :: "TokenRow \<Rightarrow> int \<Rightarrow> TokenDirRow" where
  "found_entry t dcm = \<lparr>tok_mint = address t, tok_symbol = symbol t, tok_name = name t,
                        tok_decimals = dcm, verified = 1\<rparr>"



definition broken_disk :: files where
  "broken_disk = \<lparr>cache = BadCache, seed = BadSeed, mkdir_throws = False, write_throws = False\<rparr>"

definition stale_disk :: files where
  "stale_disk = \<lparr>cache = CacheJson (Some 0) [ex_x], seed = NoSeed,
                 mkdir_throws = False, write_throws = False\<rparr>"

text \<open>A directory that lists four entries, one of them without an id.\<close>

definition item_of :: "string option \<Rightarrow> dir_item" where
  "item_of i = \<lparr>x_id = i, x_symbol = None, x_name = None, x_decimals = Some 6, x_tags = None\<rparr>"

definition token_of :: "string \<Rightarrow> TokenRow" where
  "token_of a = \<lparr>address = a, symbol = None, name = None, decimals = Some 6, tags = None\<rparr>"

definition get_listing :: "request \<Rightarrow> nat \<Rightarrow> dir_data attempt" where
  "get_listing = replay [Rejected err503]
     (Response (DataArray [item_of (Some ''A''), item_of None, item_of (Some ''B''), item_of (Some ''C'')]))"


text \<open>
  A disk without a cache file whose data directory cannot be created, a world on that
  disk, and a disk without a cache file that has a seed file.
\<close>

definition sealed_disk :: files where
  "sealed_disk = \<lparr>cache = NoCache, seed = NoSeed, mkdir_throws = True, write_throws = True\<rparr>"

definition sealed_world :: world where
  "sealed_world = ex_world\<lparr>disk := sealed_disk\<rparr>"


section \<open>Properties\<close>

subsection \<open>The store\<close>

lemma setMeta_tables [simp]:
  "tbl_snapshots (setMeta db k v) = tbl_snapshots db"
  "tbl_prices (setMeta db k v) = tbl_prices db"
  "tbl_tokens (setMeta db k v) = tbl_tokens db"
  by (simp_all add: setMeta_def)

lemma upsertTokens_tables [simp]:
  "tbl_snapshots (upsertTokens db rs) = tbl_snapshots db"
  "tbl_prices (upsertTokens db rs) = tbl_prices db"
  by (simp_all add: upsertTokens_def)

lemma insert_snapshot_rows_append:
  "insert_snapshot_rows tbl rs = Some tbl' \<Longrightarrow> tbl' = tbl @ rs"
proof (induction rs arbitrary: tbl)
  case Nil
  then show ?case by simp
next
  case (Cons r rs)
  then have "insert_snapshot_rows (tbl @ [r]) rs = Some tbl'"
    by (simp split: if_splits)
  then have "tbl' = (tbl @ [r]) @ rs" by (rule Cons.IH)
  then show ?case by simp
qed

lemma insertSnapshots_tables:
  assumes "insertSnapshots db rs = Inr db'"
  shows "tbl_snapshots db' = tbl_snapshots db @ rs" and "tbl_prices db' = tbl_prices db"
  using assms
  by (auto simp: insertSnapshots_def dest: insert_snapshot_rows_append
      split: if_splits option.splits)

lemma replace_price_fold_subset:
  "set (foldl replace_price tbl rs) \<subseteq> set tbl \<union> set rs"
proof (induction rs arbitrary: tbl)
  case Nil
  then show ?case by simp
next
  case (Cons r rs)
  have "set (foldl replace_price (replace_price tbl r) rs) \<subseteq> set (replace_price tbl r) \<union> set rs"
    by (rule Cons.IH)
  moreover have "set (replace_price tbl r) \<subseteq> set tbl \<union> {r}"
    by (auto simp: replace_price_def)
  ultimately show ?case by auto
qed

lemma replace_price_fold_keeps:
  "p \<in> set tbl \<Longrightarrow> \<forall>r \<in> set rs. price_ts r \<noteq> price_ts p \<Longrightarrow> p \<in> set (foldl replace_price tbl rs)"
proof (induction rs arbitrary: tbl)
  case Nil
  then show ?case by simp
next
  case (Cons r rs)
  from Cons.prems have "p \<in> set (replace_price tbl r)"
    by (auto simp: replace_price_def)
  with Cons.prems have "p \<in> set (foldl replace_price (replace_price tbl r) rs)"
    by (intro Cons.IH) auto
  then show ?case by simp
qed

lemma insertPrices_tables:
  "tbl_snapshots (insertPrices db rs) = tbl_snapshots db"
  "set (tbl_prices (insertPrices db rs)) \<subseteq> set (tbl_prices db) \<union> set rs"
  "p \<in> set (tbl_prices db) \<Longrightarrow> \<forall>r \<in> set rs. price_ts r \<noteq> price_ts p
     \<Longrightarrow> p \<in> set (tbl_prices (insertPrices db rs))"
  using replace_price_fold_subset[of "tbl_prices db" rs]
  by (auto simp: insertPrices_def replace_price_fold_keeps)

lemma persist_snapshots:
  "tbl_snapshots (snd (persist db b)) = tbl_snapshots db
   \<or> tbl_snapshots (snd (persist db b)) = tbl_snapshots db @ rows b"
  by (auto simp: persist_def Let_def insertPrices_tables insertSnapshots_tables
      split: sum.splits if_splits)

lemma persist_prices_subset:
  "set (tbl_prices (snd (persist db b))) \<subseteq> set (tbl_prices db) \<union> set (priceRows b)"
  using insertPrices_tables(2)
  by (fastforce simp: persist_def Let_def insertSnapshots_tables split: sum.splits if_splits)

lemma persist_prices_keeps:
  "p \<in> set (tbl_prices db) \<Longrightarrow> \<forall>r \<in> set (priceRows b). price_ts r \<noteq> price_ts p
     \<Longrightarrow> p \<in> set (tbl_prices (snd (persist db b)))"
  by (auto simp: persist_def Let_def insertSnapshots_tables insertPrices_tables
      split: sum.splits if_splits)

lemma retain_tables:
  "tbl_snapshots (snd (retain e epoch db)) = filter (\<lambda>r. cutoff_of epoch \<le> ts r) (tbl_snapshots db)"
  "tbl_prices (snd (retain e epoch db)) = filter (\<lambda>p. cutoff_of epoch \<le> price_ts p) (tbl_prices db)"
  by (simp_all add: retain_def Let_def pruneOlderThanMs_def not_less)

subsection \<open>The batch\<close>

lemma set_map_filter_iff: "y \<in> set (List.map_filter f xs) \<longleftrightarrow> (\<exists>x \<in> set xs. f x = Some y)"
  by (induction xs) (auto split: option.splits)

lemma onchain_task_row:
  assumes "onchain_task w epoch k t = Some (r, d)"
  shows "ts r = epoch" and "mint r = address t" and "tok_mint d = address t"
    and "impact_1k_pct r = None" and "spread_pct r = None"
    and "\<exists>is22 mi. getAccountInfo w k (address t) = AccInfo is22
           \<and> getMint w k (address t) is22 = MintInfo mi
           \<and> row_decimals r = chosen_decimals t mi \<and> tok_decimals d = chosen_decimals t mi"
  using assms
  by (auto simp: onchain_task_def Let_def split: acc_result.splits mint_result.splits)

lemma apply_metrics_keeps [simp]:
  "ts (apply_metrics m r) = ts r"
  "mint (apply_metrics m r) = mint r"
  "row_decimals (apply_metrics m r) = row_decimals r"
  by (simp_all add: apply_metrics_def split: option.splits)

lemma round_trip_price:
  "p \<in> set (snd (round_trip e w epoch k t dec qBuy)) \<Longrightarrow> price_ts p = epoch \<and> price_mint p = address t"
  by (auto simp: round_trip_def Let_def split: option.splits if_splits)

lemma round_trip_None [simp]: "round_trip e w epoch k t dec None = (None, [])"
  by (simp add: round_trip_def)

lemma quote_task_eq:
  "quote_task e w epoch k t =
     ((address t,
       \<lparr>m_impact_1k_pct =
          (if usdc_amount (QUOTE_SPREAD_USD e) = None then None
           else (case impact_quote e w k t of
                   None \<Rightarrow> None
                 | Some q \<Rightarrow> (case priceImpactPct q of None \<Rightarrow> None | Some v \<Rightarrow> Some (to_number v)))),
        m_spread_pct =
          fst (round_trip e w epoch k t (case decimals t of Some d \<Rightarrow> d | None \<Rightarrow> 0)
                 (buy_quote e w k t))\<rparr>),
      snd (round_trip e w epoch k t (case decimals t of Some d \<Rightarrow> d | None \<Rightarrow> 0)
             (buy_quote e w k t)))"
  by (simp add: quote_task_def impact_quote_def buy_quote_def caught_def Let_def
      split: option.splits)

lemma quote_task_caught:
  assumes "double_overflows (QUOTE_IMPACT_USD e * 1000000)
           \<or> double_overflows (QUOTE_SPREAD_USD e * 1000000)"
  shows "quote_task e w epoch k t = caught t"
  using assms by (auto simp: quote_task_def usdc_amount_def Let_def)

lemma quote_task_price:
  "p \<in> set (snd (quote_task e w epoch k t)) \<Longrightarrow> price_ts p = epoch \<and> price_mint p = address t"
  using round_trip_price by (simp add: quote_task_eq)

lemma assemble_rows_ts: "r \<in> set (rows (assemble e w epoch tokens)) \<Longrightarrow> ts r = epoch"
  by (auto simp: assemble_def Let_def set_map_filter_iff dest: onchain_task_row(1) split: if_splits)

lemma assemble_prices_ts: "p \<in> set (priceRows (assemble e w epoch tokens)) \<Longrightarrow> price_ts p = epoch"
  by (auto simp: assemble_def Let_def dest: quote_task_price split: if_splits)

subsection \<open>The retrying fetch\<close>

lemma fetch_loop_retry:
  assumes "\<forall>j. i \<le> j \<and> j < k \<longrightarrow> get req j = Rejected (errs j) \<and> retriable (status (errs j))"
    and "i \<le> k" and "k \<le> attempts"
  shows "fetch_loop get rnd req attempts m i lastErr slept =
         fetch_loop get rnd req attempts m k (if i < k then Some (errs (k - 1)) else lastErr)
           (slept @ map (\<lambda>j. backoff_delay m j (rnd j)) [i..<k])"
  using assms
proof (induction "k - i" arbitrary: i lastErr slept)
  case 0
  then show ?case by simp
next
  case (Suc d)
  then have lt: "i < k" and d: "d = k - Suc i" by arith+
  from Suc.prems lt have here: "get req i = Rejected (errs i)" "retriable (status (errs i))"
    by auto
  have step: "fetch_loop get rnd req attempts m i lastErr slept =
        fetch_loop get rnd req attempts m (Suc i) (Some (errs i)) (slept @ [backoff_delay m i (rnd i)])"
    using here lt Suc.prems(3) by (subst fetch_loop.simps) simp
  have rest: "fetch_loop get rnd req attempts m (Suc i) (Some (errs i)) (slept @ [backoff_delay m i (rnd i)]) =
        fetch_loop get rnd req attempts m k (if Suc i < k then Some (errs (k - 1)) else Some (errs i))
          ((slept @ [backoff_delay m i (rnd i)]) @ map (\<lambda>j. backoff_delay m j (rnd j)) [Suc i..<k])"
    using Suc.prems lt by (intro Suc.hyps(1)[OF d]) auto
  have e: "(if Suc i < k then Some (errs (k - 1)) else Some (errs i)) = Some (errs (k - 1))"
  proof (cases "Suc i < k")
    case True
    then show ?thesis by simp
  next
    case False
    with lt have "k = Suc i" by arith
    then show ?thesis by simp
  qed
  show ?case
    using lt by (simp add: step rest e upt_conv_Cons)
qed

lemma jitter_range: "0 \<le> r \<Longrightarrow> r < 1 \<Longrightarrow> 0 \<le> jitter r \<and> jitter r \<le> 149"
  unfolding jitter_def by (simp add: floor_less_iff le_floor_iff flip: less_Suc_eq_le)

lemma jitter_nonzero: "0 \<le> r \<Longrightarrow> (jitter r \<noteq> 0) = (1 / 150 \<le> r)"
  unfolding jitter_def by (auto simp: floor_eq_iff)

text \<open>
  Claim C3: for a call with \<open>n \<ge> 1\<close> attempts, an attempt that fails with status 429 or
  500 to 599 is retriable: while attempts remain it is retried, after a delay of
  \<open>min(maxDelayMs, 400 * 2^i)\<close> plus the random jitter \<open>\<lfloor>random * 150\<rfloor>\<close>, which
  lies between 0 and 149 and is not zero for a random value of 1/150 or more; after \<open>n\<close>
  such failures the last one is thrown. An attempt that fails with any other error, also
  one without a status, is thrown at once, with no further attempt, and an attempt that
  succeeds returns its body at once. The delays listed are those slept, one for each
  retriable failure, in order.
\<close>

theorem fetchJsonWithBackoff_policy:
  assumes n: "1 \<le> n"
    and rnd: "\<forall>i. 0 \<le> rnd i \<and> rnd i < 1"
    and retried: "\<forall>j<k. get req j = Rejected (errs j) \<and> retriable (status (errs j))"
    and k: "k \<le> n"
  shows "(k < n \<and> get req k = Response body \<longrightarrow>
            fetchJsonWithBackoff get rnd req n maxDelayMs =
              (Inr body, map (\<lambda>i. backoff_delay maxDelayMs i (rnd i)) [0..<k]))
       \<and> (k < n \<and> get req k = Rejected e \<and> \<not> retriable (status e) \<longrightarrow>
            fetchJsonWithBackoff get rnd req n maxDelayMs =
              (Inl (Some e), map (\<lambda>i. backoff_delay maxDelayMs i (rnd i)) [0..<k]))
       \<and> (k = n \<longrightarrow>
            fetchJsonWithBackoff get rnd req n maxDelayMs =
              (Inl (Some (errs (n - 1))), map (\<lambda>i. backoff_delay maxDelayMs i (rnd i)) [0..<n]))
       \<and> (\<forall>i. backoff_delay maxDelayMs i (rnd i) = min maxDelayMs (400 * 2 ^ i) + jitter (rnd i)
              \<and> 0 \<le> jitter (rnd i) \<and> jitter (rnd i) \<le> 149
              \<and> (jitter (rnd i) \<noteq> 0) = (1 / 150 \<le> rnd i))"
proof -
  let ?ds = "map (\<lambda>i. backoff_delay maxDelayMs i (rnd i)) [0..<k]"
  have skip: "fetchJsonWithBackoff get rnd req n maxDelayMs =
        fetch_loop get rnd req n maxDelayMs k (if 0 < k then Some (errs (k - 1)) else None) ?ds"
    unfolding fetchJsonWithBackoff_def
    using fetch_loop_retry[of 0 k get req errs n rnd maxDelayMs None "[]"] retried k by simp
  have ok: "fetchJsonWithBackoff get rnd req n maxDelayMs = (Inr body, ?ds)"
    if "k < n" "get req k = Response body"
    using that by (simp add: skip fetch_loop.simps[of _ _ _ _ _ k])
  have stop: "fetchJsonWithBackoff get rnd req n maxDelayMs = (Inl (Some e), ?ds)"
    if "k < n" "get req k = Rejected e" "\<not> retriable (status e)"
    using that by (simp add: skip fetch_loop.simps[of _ _ _ _ _ k])
  have spent: "fetchJsonWithBackoff get rnd req n maxDelayMs =
        (Inl (Some (errs (n - 1))), map (\<lambda>i. backoff_delay maxDelayMs i (rnd i)) [0..<n])"
    if "k = n"
    using that n by (simp add: skip fetch_loop.simps[of _ _ _ _ _ n])
  have delay: "backoff_delay maxDelayMs i (rnd i) = min maxDelayMs (400 * 2 ^ i) + jitter (rnd i)
        \<and> 0 \<le> jitter (rnd i) \<and> jitter (rnd i) \<le> 149
        \<and> (jitter (rnd i) \<noteq> 0) = (1 / 150 \<le> rnd i)" for i
    using rnd jitter_range[of "rnd i"] jitter_nonzero[of "rnd i"] by (simp add: backoff_delay_def)
  from ok stop spent delay show ?thesis by blast
qed

lemma ex_retried:
  "\<forall>j<2. get_recovering ex_req j = Rejected (ex_errs j) \<and> retriable (status (ex_errs j))"
  "\<forall>j<1. get_gone ex_req j = Rejected (ex_errs j) \<and> retriable (status (ex_errs j))"
  "\<forall>j<3. get_down ex_req j = Rejected (ex_errs j) \<and> retriable (status (ex_errs j))"
  by (simp_all add: numeral_2_eq_2 numeral_3_eq_3 less_Suc_eq get_recovering_def get_gone_def
      get_down_def replay_def ex_errs_def err503_def err429_def retriable_def)

theorem fetchJsonWithBackoff_policy_witness:
  "fetchJsonWithBackoff get_recovering rnd_half ex_req 3 1500 = (Inr DataOther, [475, 875])
   \<and> fetchJsonWithBackoff get_gone rnd_half ex_req 3 1500 = (Inl (Some err_net), [475])
   \<and> fetchJsonWithBackoff get_down rnd_half ex_req 3 1500 = (Inl (Some err503), [475, 875, 1575])
   \<and> jitter (rnd_half 0) = 75"
proof -
  have r: "\<forall>i. 0 \<le> rnd_half i \<and> rnd_half i < 1" by (simp add: rnd_half_def)
  have j: "jitter (rnd_half 0) = 75" by (simp add: jitter_def rnd_half_def)
  have d: "map (\<lambda>i. backoff_delay 1500 i (rnd_half i)) [0..<3] = [475, 875, 1575]"
    "map (\<lambda>i. backoff_delay 1500 i (rnd_half i)) [0..<2] = [475, 875]"
    "map (\<lambda>i. backoff_delay 1500 i (rnd_half i)) [0..<1] = [475]"
    by (simp_all add: upt_rec backoff_delay_def rnd_half_def jitter_def)
  have a: "get_recovering ex_req 2 = Response DataOther"
    by (simp add: get_recovering_def replay_def)
  have b: "get_gone ex_req 1 = Rejected err_net" "\<not> retriable (status err_net)"
    by (simp_all add: get_gone_def replay_def err_net_def retriable_def)
  have c: "ex_errs (3 - 1) = err503" by (simp add: ex_errs_def)
  show ?thesis
    using fetchJsonWithBackoff_policy[where n = 3 and rnd = rnd_half and k = 2
          and get = get_recovering and req = ex_req and errs = ex_errs and body = DataOther
          and maxDelayMs = 1500]
      fetchJsonWithBackoff_policy[where n = 3 and rnd = rnd_half and k = 1
          and get = get_gone and req = ex_req and errs = ex_errs and e = err_net
          and maxDelayMs = 1500]
      fetchJsonWithBackoff_policy[where n = 3 and rnd = rnd_half and k = 3
          and get = get_down and req = ex_req and errs = ex_errs and maxDelayMs = 1500]
      r ex_retried a b c d j by simp
qed

subsection \<open>The run and the store it leaves\<close>

lemma snapshot_db:
  "snd (snapshot e w db) =
     (if resolved e w = [] \<or> \<not> endpoint_ok (RPC_URL e) \<or> connect_throws w
      then snd (retain e (date_now w) db)
      else snd (persist (snd (retain e (date_now w) db))
                  (assemble e w (date_now w) (resolved e w))))"
  by (auto simp: snapshot_def Let_def split: prod.splits sum.splits)

lemma snapshot_endpoint_rejected:
  assumes "resolved e w \<noteq> []" and "\<not> endpoint_ok (RPC_URL e) \<or> connect_throws w"
  shows "snapshot e w db = (Inl EndpointRejected, snd (retain e (date_now w) db))"
  using assms by (auto simp: snapshot_def Let_def split: prod.splits)

lemma snapshot_result:
  "snapshot e w db = (Inr res, db') \<Longrightarrow>
     res_ts res = date_now w
     \<and> savedTokens res = (if resolved e w = [] then 0
          else int (length (rows (assemble e w (date_now w) (resolved e w)))))"
  by (auto simp: snapshot_def Let_def split: prod.splits sum.splits if_splits)

lemma snapshot_snapshots:
  "tbl_snapshots (snd (snapshot e w db)) = filter (\<lambda>r. cutoff_of (date_now w) \<le> ts r) (tbl_snapshots db)
   \<or> tbl_snapshots (snd (snapshot e w db)) =
       filter (\<lambda>r. cutoff_of (date_now w) \<le> ts r) (tbl_snapshots db)
       @ rows (assemble e w (date_now w) (resolved e w))"
  using persist_snapshots[of "snd (retain e (date_now w) db)"
      "assemble e w (date_now w) (resolved e w)"]
  by (auto simp: snapshot_db retain_tables)

subsection \<open>The example runs, evaluated\<close>

lemma ex_resolved: "resolved ex_env ex_world = [ex_base, ex_x]"
  by (simp add: resolved_def loadVerifiedTokens_def readCache_def ex_world_def ex_disk_def
      ex_env_def slice0_def)

lemma ex_amounts:
  "usdc_amount (QUOTE_IMPACT_USD ex_env) = Some 1000000000"
  "usdc_amount (QUOTE_SPREAD_USD ex_env) = Some 20000000"
  by (simp_all add: usdc_amount_def double_overflows_def ex_env_def)

lemma ex_connects: "endpoint_ok (RPC_URL ex_env)" "\<not> connect_throws ex_world"
  by (simp_all add: endpoint_ok_def ex_env_def ex_world_def)

lemma ex_quote_calls:
  "impact_quote ex_env ex_world k t = Some (quote_of ''199000000000'' (Some (Str ''0.005'')))"
  "buy_quote ex_env ex_world k t = Some (quote_of ''4000000000'' None)"
  "sell_quote ex_env ex_world k t a = Some (quote_of ''19000000'' None)"
  by (simp_all add: impact_quote_def buy_quote_def sell_quote_def ex_amounts jupQuote_def
      fetchJsonWithBackoff_def fetch_loop.simps ex_world_def ex_quotes_def replay_def
      err429_def retriable_def)

lemma Number_examples:
  "Number ''4000000000'' = Fin 4000000000"
  "Number ''19000000'' = Fin 19000000"
  "Number ''0'' = Fin 0"
  "Number ''0.005'' = Fin (1 / 200)"
  by (simp_all add: Number_def unsigned_decimal_def digits_val_def is_digit_def)

lemma ex_prices:
  "pBuy_of ex_env 9 ''4000000000'' = Fin 5"
  "pSell_of 9 ''4000000000'' ''19000000'' = Fin (19 / 4)"
  "mid_of (Fin 5) (Fin (19 / 4)) = Fin (39 / 8)"
  by (simp_all add: pBuy_of_def pSell_of_def mid_of_def Number_examples pow10_def num_or_def
      tiny_def ex_env_def)

lemma ex_quote_task:
  "quote_task ex_env ex_world epoch k ex_x =
     ((address ex_x, \<lparr>m_impact_1k_pct = Some (Fin (1 / 200)), m_spread_pct = Some (Fin (200 / 39))\<rparr>),
      [\<lparr>price_ts = epoch, price_mint = address ex_x, price_usd = Fin (39 / 8)\<rparr>])"
  by (simp add: quote_task_eq ex_amounts round_trip_def ex_quote_calls quote_of_def ex_prices
      to_number_def Number_examples num_sub_def ex_x_def)

lemma ex_lookups:
  "lookup_fails ex_world k ex_x"
  "\<not> lookup_fails ex_world k ex_base"
  "onchain_task ex_world epoch k ex_x = None"
  by (simp_all add: lookup_fails_def onchain_task_def ex_world_def ex_accounts_def ex_mints_def
      ex_x_def ex_base_def)

lemma ex_base_task:
  "onchain_task ex_world epoch k ex_base = Some (ex_base_row epoch, ex_base_entry)"
  by (simp add: onchain_task_def ex_world_def ex_accounts_def ex_mints_def mint_usdc_def
      chosen_decimals_def ex_base_def ex_base_row_def ex_base_entry_def)

lemma ex_toQuote: "toQuote ex_env [ex_base, ex_x] = [ex_x]"
  by (simp add: toQuote_def USDC_MINT_def ex_env_def ex_base_def ex_x_def slice0_def)

lemma ex_assemble:
  "assemble ex_env ex_world epoch [ex_base, ex_x] =
     \<lparr>tokenRows = [ex_base_entry], rows = [ex_base_row epoch],
      priceRows = [\<lparr>price_ts = epoch, price_mint = address ex_x, price_usd = Fin (39 / 8)\<rparr>,
                   \<lparr>price_ts = epoch, price_mint = address ex_base, price_usd = Fin 1\<rparr>]\<rparr>"
proof -
  have on: "\<not> offline ex_env \<and> quotesEnabled ex_env" by (simp add: ex_env_def)
  have m: "apply_metrics [fst (quote_task ex_env ex_world epoch 0 ex_x)] (ex_base_row epoch)
             = ex_base_row epoch"
    unfolding ex_quote_task
    by (simp add: apply_metrics_def ex_base_row_def ex_base_def ex_x_def)
  have u: "USDC_MINT ex_env = address ex_base" by (simp add: USDC_MINT_def ex_env_def ex_base_def)
  show ?thesis
    unfolding assemble_def Let_def ex_toQuote
    using on m by (simp add: enumerate_simps ex_base_task ex_lookups ex_quote_task u)
qed

lemma ex_now: "date_now ex_world = 1700000000000"
  by (simp add: ex_world_def)

lemma ex_retain:
  "fst (retain ex_env 1700000000000 empty_db) = \<lparr>pruned_snapshots = 0, pruned_prices = 0\<rparr>"
  "tbl_snapshots (snd (retain ex_env 1700000000000 empty_db)) = []"
  "tbl_prices (snd (retain ex_env 1700000000000 empty_db)) = []"
  by (simp_all add: retain_def Let_def countRows_def pruneOlderThanMs_def empty_db_def)

lemma ex_persist:
  assumes "tbl_snapshots db = []" "tbl_prices db = []"
  shows "fst (persist db (assemble ex_env ex_world epoch [ex_base, ex_x])) = Inr ()"
    and "tbl_snapshots (snd (persist db (assemble ex_env ex_world epoch [ex_base, ex_x])))
           = [ex_base_row epoch]"
    and "tbl_prices (snd (persist db (assemble ex_env ex_world epoch [ex_base, ex_x])))
           = [\<lparr>price_ts = epoch, price_mint = address ex_x, price_usd = Fin (39 / 8)\<rparr>,
              \<lparr>price_ts = epoch, price_mint = address ex_base, price_usd = Fin 1\<rparr>]"
  unfolding ex_assemble using assms
  by (simp_all add: persist_def insertSnapshots_def insertPrices_def
      replace_price_def ex_x_def ex_base_def)

lemma ex_snapshot:
  "fst (snapshot ex_env ex_world empty_db) =
     Inr \<lparr>res_ts = 1700000000000, savedTokens = 1,
          prunedRows = Some \<lparr>pruned_snapshots = 0, pruned_prices = 0\<rparr>\<rparr>"
  "tbl_snapshots (snd (snapshot ex_env ex_world empty_db)) = [ex_base_row 1700000000000]"
  "tbl_prices (snd (snapshot ex_env ex_world empty_db)) =
     [\<lparr>price_ts = 1700000000000, price_mint = address ex_x, price_usd = Fin (39 / 8)\<rparr>,
      \<lparr>price_ts = 1700000000000, price_mint = address ex_base, price_usd = Fin 1\<rparr>]"
  using ex_persist[OF ex_retain(2,3), of 1700000000000] ex_retain(1) ex_connects
  by (simp_all add: snapshot_def ex_resolved ex_now ex_assemble split_beta Let_def
      split: prod.splits sum.splits)

subsection \<open>Retention and the epoch of a batch\<close>

text \<open>
  Claim C6: \<^verbatim>\<open>pruneOlderThanMs\<close> keeps exactly the snapshot and price rows whose
  timestamp is not below the cutoff, deletes the others and leaves the other two tables
  alone. A run prunes with the cutoff
  48 hours before its epoch: in the store it leaves behind, no row older than the cutoff
  (such as one 49 hours old) remains, every snapshot row of the store it started from
  that is at or after the cutoff (such as one 47 hours old) is still there, and so is
  every such price row from before the epoch.
\<close>

theorem prune_deletes_older_rows:
  "set (tbl_snapshots (pruneOlderThanMs db cutoff)) = {r \<in> set (tbl_snapshots db). cutoff \<le> ts r}
   \<and> set (tbl_prices (pruneOlderThanMs db cutoff)) = {p \<in> set (tbl_prices db). cutoff \<le> price_ts p}
   \<and> tbl_tokens (pruneOlderThanMs db cutoff) = tbl_tokens db
   \<and> tbl_meta (pruneOlderThanMs db cutoff) = tbl_meta db
   \<and> cutoff_of (date_now w) = date_now w - 48 * 3600000
   \<and> (\<forall>r. ts r < cutoff_of (date_now w) \<longrightarrow> r \<notin> set (tbl_snapshots (snd (snapshot e w db))))
   \<and> (\<forall>p. price_ts p < cutoff_of (date_now w) \<longrightarrow> p \<notin> set (tbl_prices (snd (snapshot e w db))))
   \<and> (\<forall>r \<in> set (tbl_snapshots db). cutoff_of (date_now w) \<le> ts r
         \<longrightarrow> r \<in> set (tbl_snapshots (snd (snapshot e w db))))
   \<and> (\<forall>p \<in> set (tbl_prices db). cutoff_of (date_now w) \<le> price_ts p \<and> price_ts p < date_now w
         \<longrightarrow> p \<in> set (tbl_prices (snd (snapshot e w db))))"
proof -
  let ?now = "date_now w"
  let ?b = "assemble e w ?now (resolved e w)"
  let ?kept = "snd (retain e ?now db)"
  have c: "cutoff_of ?now = ?now - 48 * 3600000" "cutoff_of ?now \<le> ?now"
    by (simp_all add: cutoff_of_def)
  have s1: "set (tbl_snapshots (pruneOlderThanMs db cutoff)) = {r \<in> set (tbl_snapshots db). cutoff \<le> ts r}"
    by (auto simp: pruneOlderThanMs_def)
  have s2: "set (tbl_prices (pruneOlderThanMs db cutoff)) = {p \<in> set (tbl_prices db). cutoff \<le> price_ts p}"
    by (auto simp: pruneOlderThanMs_def)
  have gone_s: "r \<notin> set (tbl_snapshots (snd (snapshot e w db)))" if "ts r < cutoff_of ?now" for r
    using snapshot_snapshots[of e w db] that c(2) assemble_rows_ts[of r e w ?now "resolved e w"]
    by auto
  have sub: "set (tbl_prices (snd (snapshot e w db))) \<subseteq> set (tbl_prices ?kept) \<union> set (priceRows ?b)"
    using persist_prices_subset[of ?kept ?b] by (auto simp: snapshot_db)
  have gone_p: "p \<notin> set (tbl_prices (snd (snapshot e w db)))" if "price_ts p < cutoff_of ?now" for p
    using sub that c(2) assemble_prices_ts[of p e w ?now "resolved e w"]
    by (auto simp: retain_tables)
  have kept_s: "r \<in> set (tbl_snapshots (snd (snapshot e w db)))"
    if "r \<in> set (tbl_snapshots db)" "cutoff_of ?now \<le> ts r" for r
    using snapshot_snapshots[of e w db] that by auto
  have kept_p: "p \<in> set (tbl_prices (snd (snapshot e w db)))"
    if "p \<in> set (tbl_prices db)" "cutoff_of ?now \<le> price_ts p" "price_ts p < ?now" for p
  proof -
    from that have "p \<in> set (tbl_prices ?kept)" by (simp add: retain_tables)
    moreover have "\<forall>r \<in> set (priceRows ?b). price_ts r \<noteq> price_ts p"
      using that(3) assemble_prices_ts[of _ e w ?now "resolved e w"] by auto
    ultimately have "p \<in> set (tbl_prices (snd (persist ?kept ?b)))"
      by (rule persist_prices_keeps)
    then show ?thesis
      using \<open>p \<in> set (tbl_prices ?kept)\<close> by (simp add: snapshot_db)
  qed
  have s3: "tbl_tokens (pruneOlderThanMs db cutoff) = tbl_tokens db"
    "tbl_meta (pruneOlderThanMs db cutoff) = tbl_meta db"
    by (simp_all add: pruneOlderThanMs_def)
  from c(1) s1 s2 s3 gone_s gone_p kept_s kept_p show ?thesis by blast
qed

theorem prune_deletes_older_rows_witness:
  "row_at (1700000000000 - 49 * 3600000) \<notin> set (tbl_snapshots (snd (snapshot ex_env ex_world old_db)))
   \<and> price_at (1700000000000 - 49 * 3600000) \<notin> set (tbl_prices (snd (snapshot ex_env ex_world old_db)))
   \<and> row_at (1700000000000 - 47 * 3600000) \<in> set (tbl_snapshots (snd (snapshot ex_env ex_world old_db)))
   \<and> price_at (1700000000000 - 47 * 3600000) \<in> set (tbl_prices (snd (snapshot ex_env ex_world old_db)))
   \<and> tbl_snapshots (pruneOlderThanMs old_db (cutoff_of 1700000000000))
        = [row_at (1700000000000 - 47 * 3600000)]"
proof -
  have old: "ts (row_at (1700000000000 - 49 * 3600000)) < cutoff_of (date_now ex_world)"
    "price_ts (price_at (1700000000000 - 49 * 3600000)) < cutoff_of (date_now ex_world)"
    by (simp_all add: row_at_def price_at_def cutoff_of_def ex_now)
  have young: "cutoff_of (date_now ex_world) \<le> ts (row_at (1700000000000 - 47 * 3600000))"
    "cutoff_of (date_now ex_world) \<le> price_ts (price_at (1700000000000 - 47 * 3600000))"
    "price_ts (price_at (1700000000000 - 47 * 3600000)) < date_now ex_world"
    by (simp_all add: row_at_def price_at_def cutoff_of_def ex_now)
  have there: "row_at (1700000000000 - 47 * 3600000) \<in> set (tbl_snapshots old_db)"
    "price_at (1700000000000 - 47 * 3600000) \<in> set (tbl_prices old_db)"
    by (simp_all add: old_db_def)
  have pruned: "tbl_snapshots (pruneOlderThanMs old_db (cutoff_of 1700000000000))
        = [row_at (1700000000000 - 47 * 3600000)]"
    by (simp add: pruneOlderThanMs_def old_db_def cutoff_of_def row_at_def)
  show ?thesis
    using prune_deletes_older_rows[of old_db 0 ex_world ex_env] old young there pruned
    by blast
qed

text \<open>
  Claim C7: in every run, each snapshot row and each price row of the batch handed to the
  store carries the timestamp read at the start of the run, which is the \<^verbatim>\<open>ts\<close> of
  the result; so every row of the two tables afterwards either was there before or
  carries that timestamp.
\<close>

theorem batch_shares_epoch:
  "(\<forall>r \<in> set (rows (assemble e w (date_now w) (resolved e w))). ts r = date_now w)
   \<and> (\<forall>p \<in> set (priceRows (assemble e w (date_now w) (resolved e w))). price_ts p = date_now w)
   \<and> (\<forall>res db'. snapshot e w db = (Inr res, db') \<longrightarrow> res_ts res = date_now w)
   \<and> (\<forall>r \<in> set (tbl_snapshots (snd (snapshot e w db))).
         r \<in> set (tbl_snapshots db) \<or> ts r = date_now w)
   \<and> (\<forall>p \<in> set (tbl_prices (snd (snapshot e w db))).
         p \<in> set (tbl_prices db) \<or> price_ts p = date_now w)"
proof -
  let ?now = "date_now w"
  let ?b = "assemble e w ?now (resolved e w)"
  have a: "\<forall>r \<in> set (rows ?b). ts r = ?now"
    by (auto dest: assemble_rows_ts)
  have b: "\<forall>p \<in> set (priceRows ?b). price_ts p = ?now"
    by (auto dest: assemble_prices_ts)
  have c: "\<forall>res db'. snapshot e w db = (Inr res, db') \<longrightarrow> res_ts res = ?now"
    by (auto dest: snapshot_result)
  have d: "\<forall>r \<in> set (tbl_snapshots (snd (snapshot e w db))). r \<in> set (tbl_snapshots db) \<or> ts r = ?now"
    using snapshot_snapshots[of e w db] a by auto
  have "set (tbl_prices (snd (snapshot e w db)))
          \<subseteq> set (tbl_prices (snd (retain e ?now db))) \<union> set (priceRows ?b)"
    using persist_prices_subset[of "snd (retain e ?now db)" ?b] by (auto simp: snapshot_db)
  with b have e: "\<forall>p \<in> set (tbl_prices (snd (snapshot e w db))). p \<in> set (tbl_prices db) \<or> price_ts p = ?now"
    by (auto simp: retain_tables)
  from a b c d e show ?thesis by blast
qed

theorem batch_shares_epoch_witness:
  "ex_base_row 1700000000000
     \<in> set (rows (assemble ex_env ex_world (date_now ex_world) (resolved ex_env ex_world)))
   \<and> ts (ex_base_row 1700000000000) = date_now ex_world
   \<and> \<lparr>price_ts = 1700000000000, price_mint = address ex_x, price_usd = Fin (39 / 8)\<rparr>
     \<in> set (priceRows (assemble ex_env ex_world (date_now ex_world) (resolved ex_env ex_world)))
   \<and> price_ts \<lparr>price_ts = 1700000000000, price_mint = address ex_x, price_usd = Fin (39 / 8)\<rparr>
     = date_now ex_world
   \<and> fst (snapshot ex_env ex_world empty_db) =
       Inr \<lparr>res_ts = date_now ex_world, savedTokens = 1,
            prunedRows = Some \<lparr>pruned_snapshots = 0, pruned_prices = 0\<rparr>\<rparr>"
proof -
  let ?b = "assemble ex_env ex_world (date_now ex_world) (resolved ex_env ex_world)"
  let ?p = "\<lparr>price_ts = 1700000000000, price_mint = address ex_x, price_usd = Fin (39 / 8)\<rparr>"
  have r: "ex_base_row 1700000000000 \<in> set (rows ?b)" and p: "?p \<in> set (priceRows ?b)"
    by (simp_all add: ex_resolved ex_now ex_assemble)
  have run: "snapshot ex_env ex_world empty_db =
      (Inr \<lparr>res_ts = 1700000000000, savedTokens = 1,
            prunedRows = Some \<lparr>pruned_snapshots = 0, pruned_prices = 0\<rparr>\<rparr>,
       snd (snapshot ex_env ex_world empty_db))"
    using ex_snapshot(1) by (metis prod.collapse)
  from batch_shares_epoch[of ex_env ex_world empty_db] r p run
  have "ts (ex_base_row 1700000000000) = date_now ex_world"
    and "price_ts ?p = date_now ex_world"
    and "res_ts \<lparr>res_ts = 1700000000000, savedTokens = 1,
            prunedRows = Some \<lparr>pruned_snapshots = 0, pruned_prices = 0\<rparr>\<rparr> = date_now ex_world"
    by blast+
  with r p ex_snapshot(1) show ?thesis by simp
qed

subsection \<open>Rows and their tokens\<close>

lemma lookup_fails_iff: "lookup_fails w k t \<longleftrightarrow> onchain_task w epoch k t = None"
  by (simp add: lookup_fails_def onchain_task_def Let_def
      split: acc_result.splits mint_result.splits)

lemma set_slice0: "set (slice0 xs n) \<subseteq> set xs"
  by (auto simp: slice0_def dest: in_set_takeD)

lemma toQuote_not_base: "t \<in> set (toQuote e tokens) \<Longrightarrow> address t \<noteq> USDC_MINT e"
  using set_slice0[of "filter (\<lambda>t. address t \<noteq> USDC_MINT e) tokens"] by (auto simp: toQuote_def)

lemma assemble_priceRows:
  "priceRows (assemble e w epoch tokens) =
     (if \<not> offline e \<and> quotesEnabled e
      then concat (map (\<lambda>(k, t). snd (quote_task e w epoch k t)) (enumerate 0 (toQuote e tokens)))
      else [])
     @ [\<lparr>price_ts = epoch, price_mint = USDC_MINT e, price_usd = Fin 1\<rparr>]"
  by (simp add: assemble_def Let_def comp_def case_prod_unfold)

lemma quoted_price_mint:
  assumes "p \<in> set (concat (map (\<lambda>(k, t). snd (quote_task e w epoch k t)) (enumerate 0 (toQuote e tokens))))"
  shows "price_mint p \<noteq> USDC_MINT e"
proof -
  from assms obtain k t where kt: "(k, t) \<in> set (enumerate 0 (toQuote e tokens))"
    and p: "p \<in> set (snd (quote_task e w epoch k t))"
    by auto
  from kt have "t \<in> set (toQuote e tokens)" by (auto simp: in_set_enumerate_eq)
  then have "address t \<noteq> USDC_MINT e" by (rule toQuote_not_base)
  with quote_task_price[OF p] show ?thesis by simp
qed

lemma assemble_base_price:
  "filter (\<lambda>p. price_mint p = USDC_MINT e) (priceRows (assemble e w epoch tokens))
     = [\<lparr>price_ts = epoch, price_mint = USDC_MINT e, price_usd = Fin 1\<rparr>]"
proof -
  have "filter (\<lambda>p. price_mint p = USDC_MINT e)
          (concat (map (\<lambda>(k, t). snd (quote_task e w epoch k t)) (enumerate 0 (toQuote e tokens)))) = []"
    using quoted_price_mint[of _ e w epoch tokens] by (simp add: filter_empty_conv)
  then show ?thesis by (simp add: assemble_priceRows)
qed

lemma assemble_found:
  "map mint (rows (assemble e w epoch tokens))
     = map (mint \<circ> fst) (List.map_filter (\<lambda>(k, t). onchain_task w epoch k t) (enumerate 0 tokens))"
  "map row_decimals (rows (assemble e w epoch tokens))
     = map (row_decimals \<circ> fst) (List.map_filter (\<lambda>(k, t). onchain_task w epoch k t) (enumerate 0 tokens))"
  "tokenRows (assemble e w epoch tokens)
     = map snd (List.map_filter (\<lambda>(k, t). onchain_task w epoch k t) (enumerate 0 tokens))"
  by (simp_all add: assemble_def Let_def comp_def)

lemma assemble_row_token:
  assumes "r \<in> set (rows (assemble e w epoch tokens))"
  shows "\<exists>k < length tokens. \<not> lookup_fails w k (tokens ! k) \<and> mint r = address (tokens ! k)"
proof -
  from assms have "mint r \<in> set (map mint (rows (assemble e w epoch tokens)))" by simp
  then obtain q where q: "q \<in> set (List.map_filter (\<lambda>(k, t). onchain_task w epoch k t) (enumerate 0 tokens))"
    and m: "mint r = mint (fst q)"
    unfolding assemble_found by auto
  from q obtain k t where kt: "(k, t) \<in> set (enumerate 0 tokens)" and task: "onchain_task w epoch k t = Some q"
    by (auto simp: set_map_filter_iff)
  from kt have k: "k < length tokens" "t = tokens ! k" by (auto simp: in_set_enumerate_eq)
  from task have "\<not> lookup_fails w k t" by (simp add: lookup_fails_iff[of w k t epoch])
  moreover from task have "mint (fst q) = address t"
    using onchain_task_row(2)[of w epoch k t "fst q" "snd q"] by simp
  ultimately show ?thesis using k m by auto
qed

subsection \<open>A universe of the base asset and a token whose lookup fails\<close>

text \<open>
  Claim C1, as stated, gives the run zero saved tokens and one price row. In \<open>ex_world\<close>
  the universe is the quote-base asset and \<open>X\<close>, and the lookup of \<open>X\<close> throws; the
  lookup of the base asset succeeds, so one snapshot row is saved, and the quotes for \<open>X\<close>
  give a mid price, so there are two price rows.
\<close>

theorem base_and_failed_token_counterexample:
  "resolved ex_env ex_world = [ex_base, ex_x]
   \<and> address ex_base = USDC_MINT ex_env
   \<and> lookup_fails ex_world 1 ex_x
   \<and> fst (snapshot ex_env ex_world empty_db) =
       Inr \<lparr>res_ts = 1700000000000, savedTokens = 1,
            prunedRows = Some \<lparr>pruned_snapshots = 0, pruned_prices = 0\<rparr>\<rparr>
   \<and> priceRows (assemble ex_env ex_world 1700000000000 [ex_base, ex_x]) =
       [\<lparr>price_ts = 1700000000000, price_mint = address ex_x, price_usd = Fin (39 / 8)\<rparr>,
        \<lparr>price_ts = 1700000000000, price_mint = address ex_base, price_usd = Fin 1\<rparr>]"
  by (simp add: ex_resolved ex_lookups ex_snapshot ex_assemble)
    (simp add: ex_base_def USDC_MINT_def ex_env_def)

text \<open>
  Claim C1, amended: for a run whose resolved universe is the quote-base asset and a
  different token \<open>X\<close> whose lookup fails, the batch has no snapshot row for \<open>X\<close> and
  exactly one price row for the base asset, at price 1; that row is the only price row
  when the run is offline or quotes are off; and the saved-token count of the result is 0
  when the lookup of the base asset yields no row as well, and 1 otherwise.
\<close>

theorem base_and_failed_token:
  assumes univ: "resolved e w = [base, x]"
    and base: "address base = USDC_MINT e"
    and x: "address x \<noteq> USDC_MINT e"
    and fails: "lookup_fails w 1 x"
  shows "filter (\<lambda>r. mint r = address x) (rows (assemble e w (date_now w) (resolved e w))) = []
     \<and> filter (\<lambda>p. price_mint p = USDC_MINT e) (priceRows (assemble e w (date_now w) (resolved e w)))
         = [\<lparr>price_ts = date_now w, price_mint = USDC_MINT e, price_usd = Fin 1\<rparr>]
     \<and> (offline e \<or> \<not> quotesEnabled e \<longrightarrow>
          priceRows (assemble e w (date_now w) (resolved e w))
            = [\<lparr>price_ts = date_now w, price_mint = USDC_MINT e, price_usd = Fin 1\<rparr>])
     \<and> (\<forall>res db'. snapshot e w db = (Inr res, db') \<longrightarrow>
          savedTokens res = (if lookup_fails w 0 base then 0 else 1))"
proof -
  let ?b = "assemble e w (date_now w) (resolved e w)"
  have no_x: "mint r \<noteq> address x" if "r \<in> set (rows ?b)" for r
  proof -
    from assemble_row_token[OF that] obtain k
      where k: "k < length (resolved e w)" "\<not> lookup_fails w k (resolved e w ! k)"
        "mint r = address (resolved e w ! k)"
      by blast
    from k(1) univ have "k = 0 \<or> k = 1" by auto
    with k(2) fails univ have "k = 0" by auto
    with k(3) univ base x show ?thesis by simp
  qed
  then have a: "filter (\<lambda>r. mint r = address x) (rows ?b) = []"
    by (simp add: filter_empty_conv)
  have b: "filter (\<lambda>p. price_mint p = USDC_MINT e) (priceRows ?b)
         = [\<lparr>price_ts = date_now w, price_mint = USDC_MINT e, price_usd = Fin 1\<rparr>]"
    by (rule assemble_base_price)
  have c: "priceRows ?b = [\<lparr>price_ts = date_now w, price_mint = USDC_MINT e, price_usd = Fin 1\<rparr>]"
    if "offline e \<or> \<not> quotesEnabled e"
    using that by (auto simp: assemble_priceRows)
  have len: "length (rows ?b) = (if lookup_fails w 0 base then 0 else 1)"
  proof -
    have "length (rows ?b) = length (map mint (rows ?b))" by simp
    also have "\<dots> = length (List.map_filter (\<lambda>(k, t). onchain_task w (date_now w) k t)
                               (enumerate 0 [base, x]))"
      unfolding assemble_found univ by simp
    also have "\<dots> = (if lookup_fails w 0 base then 0 else 1)"
      using fails
      by (auto simp: enumerate_simps lookup_fails_iff[of w _ _ "date_now w"] split: option.splits)
    finally show ?thesis .
  qed
  have d: "savedTokens res = (if lookup_fails w 0 base then 0 else 1)"
    if "snapshot e w db = (Inr res, db')" for res db'
    using snapshot_result[OF that] univ len by simp
  from a b c d show ?thesis by blast
qed

lemma dark_resolved: "resolved quiet_env dark_world = [ex_base, ex_x]"
  by (simp add: resolved_def loadVerifiedTokens_def readCache_def dark_world_def quiet_env_def
      ex_world_def ex_disk_def ex_env_def slice0_def)

lemma dark_lookups: "lookup_fails dark_world k t"
  by (simp add: lookup_fails_def dark_world_def no_accounts_def)

lemma dark_assemble:
  "assemble quiet_env dark_world epoch [ex_base, ex_x] =
     \<lparr>tokenRows = [], rows = [],
      priceRows = [\<lparr>price_ts = epoch, price_mint = USDC_MINT quiet_env, price_usd = Fin 1\<rparr>]\<rparr>"
  using dark_lookups
  by (simp add: assemble_def Let_def enumerate_simps lookup_fails_iff[of dark_world _ _ epoch]
      quiet_env_def)

lemma dark_snapshot:
  "fst (snapshot quiet_env dark_world empty_db) =
     Inr \<lparr>res_ts = 1700000000000, savedTokens = 0,
          prunedRows = Some \<lparr>pruned_snapshots = 0, pruned_prices = 0\<rparr>\<rparr>"
proof -
  have now: "date_now dark_world = 1700000000000"
    by (simp add: dark_world_def ex_world_def)
  have kept: "fst (retain quiet_env 1700000000000 empty_db) = \<lparr>pruned_snapshots = 0, pruned_prices = 0\<rparr>"
    by (simp add: retain_def Let_def countRows_def pruneOlderThanMs_def empty_db_def)
  have conn: "endpoint_ok (RPC_URL quiet_env)" "\<not> connect_throws dark_world"
    by (simp_all add: endpoint_ok_def quiet_env_def ex_env_def dark_world_def ex_world_def)
  show ?thesis
    unfolding snapshot_def dark_resolved now Let_def dark_assemble
    using kept conn by (simp add: persist_def split_beta)
qed

theorem base_and_failed_token_witness:
  "resolved quiet_env dark_world = [ex_base, ex_x]
   \<and> lookup_fails dark_world 1 ex_x \<and> lookup_fails dark_world 0 ex_base
   \<and> filter (\<lambda>r. mint r = address ex_x)
        (rows (assemble quiet_env dark_world (date_now dark_world) (resolved quiet_env dark_world))) = []
   \<and> priceRows (assemble quiet_env dark_world (date_now dark_world) (resolved quiet_env dark_world))
        = [\<lparr>price_ts = date_now dark_world, price_mint = USDC_MINT quiet_env, price_usd = Fin 1\<rparr>]
   \<and> fst (snapshot quiet_env dark_world empty_db) =
       Inr \<lparr>res_ts = 1700000000000, savedTokens = 0,
            prunedRows = Some \<lparr>pruned_snapshots = 0, pruned_prices = 0\<rparr>\<rparr>"
proof -
  have base: "address ex_base = USDC_MINT quiet_env"
    and x: "address ex_x \<noteq> USDC_MINT quiet_env"
    and off: "offline quiet_env \<or> \<not> quotesEnabled quiet_env"
    by (simp_all add: ex_base_def ex_x_def USDC_MINT_def quiet_env_def ex_env_def)
  have run: "snapshot quiet_env dark_world empty_db =
      (Inr \<lparr>res_ts = 1700000000000, savedTokens = 0,
            prunedRows = Some \<lparr>pruned_snapshots = 0, pruned_prices = 0\<rparr>\<rparr>,
       snd (snapshot quiet_env dark_world empty_db))"
    using dark_snapshot by (metis prod.collapse)
  show ?thesis
    using base_and_failed_token[OF dark_resolved base x dark_lookups, of empty_db]
      off dark_resolved dark_lookups dark_snapshot
    by simp
qed

subsection \<open>Price rows of tokens without a snapshot row\<close>

lemma round_trip_accepts:
  assumes "outAmount b \<noteq> []"
    and "sell_quote e w k t (outAmount b) = Some s" and "outAmount s \<noteq> []"
    and "mid_of (pBuy_of e dec (outAmount b)) (pSell_of dec (outAmount b) (outAmount s)) = m"
    and "num_pos m" and "isFinite m"
  shows "snd (round_trip e w epoch k t dec (Some b))
           = [\<lparr>price_ts = epoch, price_mint = address t, price_usd = m\<rparr>]"
  using assms by (simp add: round_trip_def Let_def)

text \<open>
  Claim C9: the quote fan-out runs over the resolved universe whatever the lookups gave.
  When the run is online with quotes on, a token among those quoted whose buy and sell
  quotes give a mid price that is finite and above zero contributes a price row at that
  price, and if every lookup of its address failed the batch has no snapshot row for it.
  The run in \<open>ex_world\<close> is one: its store ends with a price row for \<open>X\<close> and no
  snapshot row for \<open>X\<close>.
\<close>

theorem failed_lookup_still_priced:
  assumes on: "\<not> offline e" "quotesEnabled e"
    and sel: "k < length (toQuote e tokens)" "toQuote e tokens ! k = t"
    and buy: "buy_quote e w k t = Some b" "outAmount b \<noteq> []"
    and sell: "sell_quote e w k t (outAmount b) = Some s" "outAmount s \<noteq> []"
    and mid: "mid_of (pBuy_of e (case decimals t of Some d \<Rightarrow> d | None \<Rightarrow> 0) (outAmount b))
                (pSell_of (case decimals t of Some d \<Rightarrow> d | None \<Rightarrow> 0) (outAmount b) (outAmount s)) = m"
      "num_pos m" "isFinite m"
    and fails: "\<forall>j < length tokens. address (tokens ! j) = address t \<longrightarrow> lookup_fails w j (tokens ! j)"
  shows "\<lparr>price_ts = epoch, price_mint = address t, price_usd = m\<rparr>
           \<in> set (priceRows (assemble e w epoch tokens))
       \<and> filter (\<lambda>r. mint r = address t) (rows (assemble e w epoch tokens)) = []"
proof -
  let ?p = "\<lparr>price_ts = epoch, price_mint = address t, price_usd = m\<rparr>"
  have "snd (quote_task e w epoch k t) = [?p]"
    using round_trip_accepts[OF buy(2) sell mid] buy(1) by (simp add: quote_task_eq)
  moreover have "(k, t) \<in> set (enumerate 0 (toQuote e tokens))"
    using sel by (simp add: in_set_enumerate_eq)
  ultimately have "?p \<in> set (concat (map (\<lambda>(k, t). snd (quote_task e w epoch k t))
                                      (enumerate 0 (toQuote e tokens))))"
    by force
  with on have priced: "?p \<in> set (priceRows (assemble e w epoch tokens))"
    by (simp add: assemble_priceRows)
  have "mint r \<noteq> address t" if "r \<in> set (rows (assemble e w epoch tokens))" for r
    using assemble_row_token[OF that] fails by metis
  then have "filter (\<lambda>r. mint r = address t) (rows (assemble e w epoch tokens)) = []"
    by (simp add: filter_empty_conv)
  with priced show ?thesis by simp
qed

theorem failed_lookup_still_priced_witness:
  "lookup_fails ex_world 1 ex_x
   \<and> \<lparr>price_ts = 1700000000000, price_mint = address ex_x, price_usd = Fin (39 / 8)\<rparr>
       \<in> set (priceRows (assemble ex_env ex_world 1700000000000 [ex_base, ex_x]))
   \<and> filter (\<lambda>r. mint r = address ex_x) (rows (assemble ex_env ex_world 1700000000000 [ex_base, ex_x])) = []
   \<and> \<lparr>price_ts = 1700000000000, price_mint = address ex_x, price_usd = Fin (39 / 8)\<rparr>
       \<in> set (tbl_prices (snd (snapshot ex_env ex_world empty_db)))
   \<and> filter (\<lambda>r. mint r = address ex_x) (tbl_snapshots (snd (snapshot ex_env ex_world empty_db))) = []"
proof -
  have on: "\<not> offline ex_env" "quotesEnabled ex_env" by (simp_all add: ex_env_def)
  have sel: "0 < length (toQuote ex_env [ex_base, ex_x])" "toQuote ex_env [ex_base, ex_x] ! 0 = ex_x"
    by (simp_all add: ex_toQuote)
  have out: "outAmount (quote_of ''4000000000'' None) = ''4000000000''"
    "outAmount (quote_of ''19000000'' None) = ''19000000''"
    by (simp_all add: quote_of_def)
  have buy: "outAmount (quote_of ''4000000000'' None) \<noteq> []"
    and sell: "sell_quote ex_env ex_world 0 ex_x (outAmount (quote_of ''4000000000'' None))
                = Some (quote_of ''19000000'' None)"
      "outAmount (quote_of ''19000000'' None) \<noteq> []"
    by (simp_all add: ex_quote_calls out)
  have mid: "mid_of (pBuy_of ex_env (case decimals ex_x of Some d \<Rightarrow> d | None \<Rightarrow> 0)
                       (outAmount (quote_of ''4000000000'' None)))
               (pSell_of (case decimals ex_x of Some d \<Rightarrow> d | None \<Rightarrow> 0)
                  (outAmount (quote_of ''4000000000'' None)) (outAmount (quote_of ''19000000'' None)))
             = Fin (39 / 8)"
    "num_pos (Fin (39 / 8))" "isFinite (Fin (39 / 8))"
    unfolding out by (simp_all add: ex_x_def ex_prices)
  have fails: "\<forall>j < length [ex_base, ex_x]. address ([ex_base, ex_x] ! j) = address ex_x
                 \<longrightarrow> lookup_fails ex_world j ([ex_base, ex_x] ! j)"
  proof -
    have "address ex_base \<noteq> address ex_x" by (simp add: ex_base_def ex_x_def)
    then show ?thesis by (simp add: less_Suc_eq ex_lookups numeral_2_eq_2)
  qed
  have x: "address ex_x \<noteq> address ex_base" by (simp add: ex_x_def ex_base_def)
  have db: "\<lparr>price_ts = 1700000000000, price_mint = address ex_x, price_usd = Fin (39 / 8)\<rparr>
              \<in> set (tbl_prices (snd (snapshot ex_env ex_world empty_db)))"
    "filter (\<lambda>r. mint r = address ex_x) (tbl_snapshots (snd (snapshot ex_env ex_world empty_db))) = []"
    using x by (simp_all add: ex_snapshot ex_base_row_def)
  show ?thesis
    using failed_lookup_still_priced[OF on sel ex_quote_calls(2) buy sell mid fails, of 1700000000000]
      ex_lookups(1)[of 1] db
    by simp
qed

subsection \<open>Decimals\<close>

lemma zip_map_same: "zip (map f xs) (map g xs) = map (\<lambda>x. (f x, g x)) xs"
  by (induction xs) simp_all

lemma assemble_zip:
  "\<exists>g. (\<forall>r. mint (g r) = mint r \<and> row_decimals (g r) = row_decimals r)
       \<and> zip (rows (assemble e w epoch tokens)) (tokenRows (assemble e w epoch tokens))
           = map (\<lambda>q. (g (fst q), snd q))
               (List.map_filter (\<lambda>(k, t). onchain_task w epoch k t) (enumerate 0 tokens))"
proof -
  let ?found = "List.map_filter (\<lambda>(k, t). onchain_task w epoch k t) (enumerate 0 tokens)"
  let ?mm = "map fst (if \<not> offline e \<and> quotesEnabled e
                then map (\<lambda>(k, t). quote_task e w epoch k t) (enumerate 0 (toQuote e tokens))
                else [])"
  let ?g = "if ?mm \<noteq> [] then apply_metrics ?mm else (\<lambda>r. r)"
  have "rows (assemble e w epoch tokens) = map (\<lambda>q. ?g (fst q)) ?found"
    and "tokenRows (assemble e w epoch tokens) = map snd ?found"
    by (simp_all add: assemble_def Let_def comp_def)
  then have "zip (rows (assemble e w epoch tokens)) (tokenRows (assemble e w epoch tokens))
      = map (\<lambda>q. (?g (fst q), snd q)) ?found"
    by (simp add: zip_map_same)
  moreover have "\<forall>r. mint (?g r) = mint r \<and> row_decimals (?g r) = row_decimals r"
    by simp
  ultimately show ?thesis by blast
qed

text \<open>
  Claim C10: a snapshot row and the directory row pushed with it come from one token of
  the universe whose account and mint were read, and both carry the same decimals: the
  decimals of the token's directory entry when it has them, otherwise the decimals of the
  mint read on chain, and 0 when that has none either.
\<close>

theorem directory_decimals_first:
  assumes "(r, d) \<in> set (zip (rows (assemble e w epoch tokens)) (tokenRows (assemble e w epoch tokens)))"
  shows "\<exists>k < length tokens. \<exists>isToken2022 mintInfo.
           getAccountInfo w k (address (tokens ! k)) = AccInfo isToken2022
         \<and> getMint w k (address (tokens ! k)) isToken2022 = MintInfo mintInfo
         \<and> mint r = address (tokens ! k) \<and> tok_mint d = address (tokens ! k)
         \<and> tok_decimals d = row_decimals r
         \<and> row_decimals r =
             (case decimals (tokens ! k) of
                Some n \<Rightarrow> n
              | None \<Rightarrow> (case mint_decimals mintInfo of Some n \<Rightarrow> n | None \<Rightarrow> 0))"
proof -
  from assemble_zip[of e w epoch tokens] obtain g
    where g: "\<And>r. mint (g r) = mint r" "\<And>r. row_decimals (g r) = row_decimals r"
      and z: "zip (rows (assemble e w epoch tokens)) (tokenRows (assemble e w epoch tokens))
           = map (\<lambda>q. (g (fst q), snd q))
               (List.map_filter (\<lambda>(k, t). onchain_task w epoch k t) (enumerate 0 tokens))"
    by blast
  from assms obtain q
    where q: "q \<in> set (List.map_filter (\<lambda>(k, t). onchain_task w epoch k t) (enumerate 0 tokens))"
      and rd: "r = g (fst q)" "d = snd q"
    unfolding z by auto
  from q obtain k t where kt: "(k, t) \<in> set (enumerate 0 tokens)"
    and task: "onchain_task w epoch k t = Some (fst q, snd q)"
    by (auto simp: set_map_filter_iff)
  from kt have k: "k < length tokens" "t = tokens ! k" by (auto simp: in_set_enumerate_eq)
  from onchain_task_row(6)[OF task] obtain is22 mi
    where on: "getAccountInfo w k (address t) = AccInfo is22" "getMint w k (address t) is22 = MintInfo mi"
      and dec: "row_decimals (fst q) = chosen_decimals t mi" "tok_decimals (snd q) = chosen_decimals t mi"
    by blast
  have "mint r = address t" "tok_mint d = address t"
    using onchain_task_row(2,3)[OF task] rd g by simp_all
  moreover have "tok_decimals d = row_decimals r" using dec rd g by simp
  moreover have "row_decimals r =
      (case decimals t of Some n \<Rightarrow> n | None \<Rightarrow> (case mint_decimals mi of Some n \<Rightarrow> n | None \<Rightarrow> 0))"
    using dec rd g by (simp add: chosen_decimals_def)
  ultimately show ?thesis using k on by blast
qed

lemma open_tasks:
  "onchain_task open_world epoch k ex_x = Some (found_row epoch ex_x 9, found_entry ex_x 9)"
  "onchain_task open_world epoch k ex_bare = Some (found_row epoch ex_bare 6, found_entry ex_bare 6)"
  by (simp_all add: onchain_task_def open_world_def ex_world_def all_accounts_def ex_mints_def
      mint_usdc_def chosen_decimals_def ex_x_def ex_bare_def found_row_def found_entry_def)

lemma open_assemble:
  "rows (assemble quiet_env open_world epoch [ex_x, ex_bare])
     = [found_row epoch ex_x 9, found_row epoch ex_bare 6]"
  "tokenRows (assemble quiet_env open_world epoch [ex_x, ex_bare])
     = [found_entry ex_x 9, found_entry ex_bare 6]"
  by (simp_all add: assemble_def Let_def enumerate_simps open_tasks quiet_env_def)

theorem directory_decimals_first_witness:
  "zip (rows (assemble quiet_env open_world 1700000000000 [ex_x, ex_bare]))
       (tokenRows (assemble quiet_env open_world 1700000000000 [ex_x, ex_bare]))
     = [(found_row 1700000000000 ex_x 9, found_entry ex_x 9),
        (found_row 1700000000000 ex_bare 6, found_entry ex_bare 6)]
   \<and> decimals ex_x = Some 9 \<and> decimals ex_bare = None \<and> mint_decimals mint_usdc = Some 6
   \<and> getMint open_world 0 (address ex_x) False = MintInfo mint_usdc
   \<and> getMint open_world 1 (address ex_bare) False = MintInfo mint_usdc
   \<and> row_decimals (found_row 1700000000000 ex_x 9) = 9
   \<and> tok_decimals (found_entry ex_x 9) = 9
   \<and> row_decimals (found_row 1700000000000 ex_bare 6) = 6
   \<and> tok_decimals (found_entry ex_bare 6) = 6"
proof -
  let ?b = "assemble quiet_env open_world 1700000000000 [ex_x, ex_bare]"
  have z: "zip (rows ?b) (tokenRows ?b)
     = [(found_row 1700000000000 ex_x 9, found_entry ex_x 9),
        (found_row 1700000000000 ex_bare 6, found_entry ex_bare 6)]"
    by (simp add: open_assemble)
  then have m: "(found_row 1700000000000 ex_x 9, found_entry ex_x 9) \<in> set (zip (rows ?b) (tokenRows ?b))"
    by simp
  have v: "decimals ex_x = Some 9" "decimals ex_bare = None" "mint_decimals mint_usdc = Some 6"
    "getMint open_world 0 (address ex_x) False = MintInfo mint_usdc"
    "getMint open_world 1 (address ex_bare) False = MintInfo mint_usdc"
    by (simp_all add: ex_x_def ex_bare_def mint_usdc_def open_world_def ex_world_def ex_mints_def)
  have f: "row_decimals (found_row 1700000000000 ex_x 9) = 9" "tok_decimals (found_entry ex_x 9) = 9"
    "row_decimals (found_row 1700000000000 ex_bare 6) = 6" "tok_decimals (found_entry ex_bare 6) = 6"
    by (simp_all add: found_row_def found_entry_def)
  show ?thesis
    using directory_decimals_first[OF m] z v f by simp
qed

subsection \<open>A buy leg with no output\<close>

lemma zero_quote_calls:
  "impact_quote ex_env zero_world k t = Some (quote_of ''0'' None)"
  "buy_quote ex_env zero_world k t = Some (quote_of ''0'' None)"
  "sell_quote ex_env zero_world k t a = Some (quote_of ''0'' None)"
  by (simp_all add: impact_quote_def buy_quote_def sell_quote_def ex_amounts jupQuote_def
      fetchJsonWithBackoff_def fetch_loop.simps zero_world_def ex_world_def zero_quotes_def
      replay_def)

lemma pow10_pos: "0 < pow10 d"
  by (simp add: pow10_def)

lemma Number_zero: "Number ''0'' = Fin 0"
  by (simp add: Number_def unsigned_decimal_def digits_val_def is_digit_def)

lemma pBuy_zero: "pBuy_of e dec ''0'' = Fin (QUOTE_SPREAD_USD e * 10 ^ 12)"
  using pow10_pos[of dec] by (simp add: pBuy_of_def Number_zero num_or_def tiny_def)

lemma pSell_zero: "pSell_of dec ''0'' ''0'' = Fin 0"
  using pow10_pos[of dec] by (simp add: pSell_of_def Number_zero num_or_def tiny_def)

text \<open>
  Claim C2, as stated, gives every token whose buy-leg quote has a zero output amount a
  null spread and no price row. The amount comes as the string \<^verbatim>\<open>"0"\<close>, which is
  truthy: when the sell-leg quote answers as well (here with \<^verbatim>\<open>"0"\<close>), the derivation
  runs with the denominator \<open>1e-12\<close>, the mid price is \<open>10\<^sup>1\<^sup>3\<close>, and the task records a
  spread of 200 and pushes a price row.
\<close>

theorem zero_buy_output_counterexample:
  "buy_quote ex_env zero_world 0 ex_x = Some (quote_of ''0'' None)
   \<and> outAmount (quote_of ''0'' None) = ''0''
   \<and> quote_task ex_env zero_world 1700000000000 0 ex_x =
       ((address ex_x, \<lparr>m_impact_1k_pct = None, m_spread_pct = Some (Fin 200)\<rparr>),
        [\<lparr>price_ts = 1700000000000, price_mint = address ex_x, price_usd = Fin 10000000000000\<rparr>])"
proof -
  have "mid_of (pBuy_of ex_env 9 ''0'') (pSell_of 9 ''0'' ''0'') = Fin 10000000000000"
    by (simp add: pBuy_zero pSell_zero mid_of_def ex_env_def)
  moreover have "num_mul (num_div (num_sub (pBuy_of ex_env 9 ''0'') (pSell_of 9 ''0'' ''0''))
                   (Fin 10000000000000)) (Fin 100) = Fin 200"
    by (simp add: pBuy_zero pSell_zero num_sub_def ex_env_def)
  moreover have "decimals ex_x = Some 9" by (simp add: ex_x_def)
  ultimately show ?thesis
    by (simp add: quote_task_eq ex_amounts round_trip_def zero_quote_calls quote_of_def)
qed

lemma round_trip_no_buy:
  "no_output qBuy \<Longrightarrow> round_trip e w epoch k t dec qBuy = (None, [])"
  by (simp add: round_trip_def no_output_def split: option.splits)

lemma round_trip_no_sell:
  "outAmount b \<noteq> [] \<Longrightarrow> no_output (sell_quote e w k t (outAmount b))
     \<Longrightarrow> round_trip e w epoch k t dec (Some b) = (None, [])"
  by (cases "sell_quote e w k t (outAmount b)") (simp_all add: round_trip_def no_output_def)

text \<open>
  Claim C2, amended: a token whose buy-leg quote is missing or has an empty output amount
  gets a null spread and no price row, and so does a token whose buy-leg output amount is
  \<^verbatim>\<open>"0"\<close> when its sell-leg quote is missing or has an empty output amount; the task
  always returns. For the amount \<^verbatim>\<open>"0"\<close> the buy price is the notional divided by
  \<open>1e-12\<close>, which takes the place of the scaled amount 0; a denominator guarded by
  \<^verbatim>\<open>|| 1e-12\<close> is never zero, and neither is \<^verbatim>\<open>10 ** dec\<close>.
\<close>

theorem buy_leg_without_output:
  "(no_output (buy_quote e w k t) \<longrightarrow>
      m_spread_pct (snd (fst (quote_task e w epoch k t))) = None
      \<and> snd (quote_task e w epoch k t) = [])
   \<and> ((\<exists>b. buy_quote e w k t = Some b \<and> outAmount b = ''0'')
        \<and> no_output (sell_quote e w k t ''0'') \<longrightarrow>
      m_spread_pct (snd (fst (quote_task e w epoch k t))) = None
      \<and> snd (quote_task e w epoch k t) = [])
   \<and> pBuy_of e dec ''0'' = Fin (QUOTE_SPREAD_USD e / (1 / 10 ^ 12))
   \<and> (\<forall>x. num_truthy (num_or x tiny))
   \<and> 0 < pow10 dec"
proof -
  have a: "m_spread_pct (snd (fst (quote_task e w epoch k t))) = None
      \<and> snd (quote_task e w epoch k t) = []"
    if "no_output (buy_quote e w k t)"
    using round_trip_no_buy[OF that] by (simp add: quote_task_eq)
  have b: "m_spread_pct (snd (fst (quote_task e w epoch k t))) = None
      \<and> snd (quote_task e w epoch k t) = []"
    if "\<exists>b. buy_quote e w k t = Some b \<and> outAmount b = ''0''"
      and "no_output (sell_quote e w k t ''0'')"
  proof -
    from that(1) obtain b where b: "buy_quote e w k t = Some b" "outAmount b = ''0''" by blast
    then have "round_trip e w epoch k t dec' (Some b) = (None, [])" for dec'
      using round_trip_no_sell[of b e w k t] that(2) by simp
    with b(1) show ?thesis by (simp add: quote_task_eq)
  qed
  have c: "pBuy_of e dec ''0'' = Fin (QUOTE_SPREAD_USD e / (1 / 10 ^ 12))"
    by (simp add: pBuy_zero)
  have d: "\<forall>x. num_truthy (num_or x tiny)"
    by (simp add: num_or_def tiny_def)
  from a b c d pow10_pos[of dec] show ?thesis by blast
qed

lemma refusing_quote_calls:
  "buy_quote ex_env refusing_world k t = Some (quote_of ''0'' None)"
  "sell_quote ex_env refusing_world k t a = None"
  by (simp_all add: buy_quote_def sell_quote_def ex_amounts jupQuote_def
      fetchJsonWithBackoff_def fetch_loop.simps refusing_world_def ex_world_def
      refusing_quotes_def replay_def retriable_def)

theorem buy_leg_without_output_witness:
  "buy_quote ex_env refusing_world 0 ex_x = Some (quote_of ''0'' None)
   \<and> outAmount (quote_of ''0'' None) = ''0''
   \<and> sell_quote ex_env refusing_world 0 ex_x ''0'' = None
   \<and> m_spread_pct (snd (fst (quote_task ex_env refusing_world 1700000000000 0 ex_x))) = None
   \<and> snd (quote_task ex_env refusing_world 1700000000000 0 ex_x) = []
   \<and> pBuy_of ex_env 9 ''0'' = Fin 20000000000000"
proof -
  have o: "outAmount (quote_of ''0'' None) = ''0''" by (simp add: quote_of_def)
  have n: "no_output (sell_quote ex_env refusing_world 0 ex_x ''0'')"
    by (simp add: refusing_quote_calls no_output_def)
  have q: "QUOTE_SPREAD_USD ex_env / (1 / 10 ^ 12) = 20000000000000" by (simp add: ex_env_def)
  show ?thesis
    using buy_leg_without_output[of ex_env refusing_world 0 ex_x 1700000000000 9]
      refusing_quote_calls o n q by auto
qed

subsection \<open>The resolver\<close>

lemma length_slice0: "0 \<le> n \<Longrightarrow> int (length (slice0 xs n)) \<le> n"
  by (simp add: slice0_def)



lemma length_readSeed: "0 \<le> n \<Longrightarrow> int (length (readSeed e f n)) \<le> n"
  by (simp add: readSeed_def length_slice0 split: seed_file.splits)

lemma length_readCache: "0 \<le> n \<Longrightarrow> readCache e now f n soft = Some c \<Longrightarrow> int (length c) \<le> n"
  by (auto simp: readCache_def Let_def length_slice0 split: cache_file.splits if_splits)

lemma write_cache_seed [simp]: "seed (write_cache f now items) = seed f"
  by (simp add: write_cache_def)

text \<open>
  Claim C8, as stated, has the resolver never raise, whatever the environment. The call
  \<^verbatim>\<open>mkdirSync\<close> at the head of \<^verbatim>\<open>loadVerifiedTokens\<close> is outside every
  \<^verbatim>\<open>try\<close>: with no cache file and a data directory that cannot be created, the
  function throws.
\<close>

theorem resolver_mkdir_counterexample:
  "cache sealed_disk = NoCache
   \<and> loadVerifiedTokens ex_env get_down rnd_half 1700000000001 1700000000002 sealed_disk 50
       = (Inl MkdirFailed, sealed_disk)"
  by (simp add: loadVerifiedTokens_def sealed_disk_def)

text \<open>
  Claim C8, amended: for every limit, every state of the cache file and of the seed file,
  every outcome of the directory request and of the cache write, with a data directory
  that exists or can be created, \<^verbatim>\<open>loadVerifiedTokens\<close> returns a list and does not
  throw. Offline the list is the cache, of any age, cut to the limit, or the seed when
  there is no usable cache. Online it is the cache when that is younger than the TTL;
  otherwise the entries of the directory response that have an id, when there are any;
  otherwise, when the request fails or lists no usable entry, the stale cache, or the seed
  when there is no usable cache, cut to the limit. When the data directory cannot be
  created the function throws, and \<^verbatim>\<open>snapshot\<close> catches that and goes on with no
  tokens.
\<close>

theorem resolver_returns_list:
  "(\<not> mkdir_throws f \<longrightarrow>
      (\<exists>tokens f'. loadVerifiedTokens e get rnd tc tw f limit = (Inr tokens, f')
         \<and> (\<forall>raw_ts items. offline e \<and> cache f = CacheJson raw_ts items \<longrightarrow>
               tokens = slice0 items limit)
         \<and> (offline e \<and> (cache f = NoCache \<or> cache f = BadCache) \<longrightarrow>
               tokens = readSeed e f limit)
         \<and> (\<forall>raw_ts items. \<not> offline e \<and> cache f = CacheJson raw_ts items
               \<and> tc - (case raw_ts of Some t \<Rightarrow> t | None \<Rightarrow> 0) < JUP_TOKENS_CACHE_TTL_MS e \<longrightarrow>
               tokens = slice0 items limit)
         \<and> (\<forall>raw_ts items listed. \<not> offline e \<and> cache f = CacheJson raw_ts items
               \<and> \<not> tc - (case raw_ts of Some t \<Rightarrow> t | None \<Rightarrow> 0) < JUP_TOKENS_CACHE_TTL_MS e
               \<and> fetch_verified get rnd e = Some listed \<and> listed \<noteq> [] \<longrightarrow>
               tokens = slice0 listed limit)
         \<and> (\<forall>listed. \<not> offline e \<and> (cache f = NoCache \<or> cache f = BadCache)
               \<and> fetch_verified get rnd e = Some listed \<and> listed \<noteq> [] \<longrightarrow>
               tokens = slice0 listed limit)
         \<and> (\<forall>raw_ts items. \<not> offline e \<and> cache f = CacheJson raw_ts items
               \<and> \<not> tc - (case raw_ts of Some t \<Rightarrow> t | None \<Rightarrow> 0) < JUP_TOKENS_CACHE_TTL_MS e
               \<and> (fetch_verified get rnd e = None \<or> fetch_verified get rnd e = Some []) \<longrightarrow>
               tokens = slice0 (slice0 items limit) limit)
         \<and> (\<not> offline e \<and> (cache f = NoCache \<or> cache f = BadCache)
               \<and> (fetch_verified get rnd e = None \<or> fetch_verified get rnd e = Some []) \<longrightarrow>
               tokens = slice0 (readSeed e f limit) limit)))
   \<and> (mkdir_throws f \<longrightarrow>
        loadVerifiedTokens e get rnd tc tw f limit = (Inl MkdirFailed, f))
   \<and> (mkdir_throws (disk w) \<longrightarrow> resolved e w = [])"
proof -
  have ok: "\<exists>tokens f'. loadVerifiedTokens e get rnd tc tw f limit = (Inr tokens, f')
         \<and> (\<forall>raw_ts items. offline e \<and> cache f = CacheJson raw_ts items \<longrightarrow>
               tokens = slice0 items limit)
         \<and> (offline e \<and> (cache f = NoCache \<or> cache f = BadCache) \<longrightarrow>
               tokens = readSeed e f limit)
         \<and> (\<forall>raw_ts items. \<not> offline e \<and> cache f = CacheJson raw_ts items
               \<and> tc - (case raw_ts of Some t \<Rightarrow> t | None \<Rightarrow> 0) < JUP_TOKENS_CACHE_TTL_MS e \<longrightarrow>
               tokens = slice0 items limit)
         \<and> (\<forall>raw_ts items listed. \<not> offline e \<and> cache f = CacheJson raw_ts items
               \<and> \<not> tc - (case raw_ts of Some t \<Rightarrow> t | None \<Rightarrow> 0) < JUP_TOKENS_CACHE_TTL_MS e
               \<and> fetch_verified get rnd e = Some listed \<and> listed \<noteq> [] \<longrightarrow>
               tokens = slice0 listed limit)
         \<and> (\<forall>listed. \<not> offline e \<and> (cache f = NoCache \<or> cache f = BadCache)
               \<and> fetch_verified get rnd e = Some listed \<and> listed \<noteq> [] \<longrightarrow>
               tokens = slice0 listed limit)
         \<and> (\<forall>raw_ts items. \<not> offline e \<and> cache f = CacheJson raw_ts items
               \<and> \<not> tc - (case raw_ts of Some t \<Rightarrow> t | None \<Rightarrow> 0) < JUP_TOKENS_CACHE_TTL_MS e
               \<and> (fetch_verified get rnd e = None \<or> fetch_verified get rnd e = Some []) \<longrightarrow>
               tokens = slice0 (slice0 items limit) limit)
         \<and> (\<not> offline e \<and> (cache f = NoCache \<or> cache f = BadCache)
               \<and> (fetch_verified get rnd e = None \<or> fetch_verified get rnd e = Some []) \<longrightarrow>
               tokens = slice0 (readSeed e f limit) limit)"
    if "\<not> mkdir_throws f"
  proof (cases "cache f")
    case NoCache
    with that show ?thesis
      by (cases "fetch_verified get rnd e")
        (auto simp: loadVerifiedTokens_def readCache_def Let_def)
  next
    case BadCache
    with that show ?thesis
      by (cases "fetch_verified get rnd e")
        (auto simp: loadVerifiedTokens_def readCache_def Let_def)
  next
    case (CacheJson raw_ts items)
    with that show ?thesis
      by (cases "fetch_verified get rnd e")
        (auto simp: loadVerifiedTokens_def readCache_def Let_def)
  qed
  have thrown: "loadVerifiedTokens e get rnd tc tw f limit = (Inl MkdirFailed, f)"
    if "mkdir_throws f"
    using that by (simp add: loadVerifiedTokens_def)
  have absorbed: "resolved e w = []" if "mkdir_throws (disk w)"
    using that by (simp add: loadVerifiedTokens_def resolved_def)
  from ok thrown absorbed show ?thesis by blast
qed

lemma down_fetched: "fetch_verified get_down rnd_half ex_env = None"
  by (simp add: fetch_verified_def fetchJsonWithBackoff_def fetch_loop.simps get_down_def
      replay_def err503_def err429_def retriable_def)

theorem resolver_returns_list_witness:
  "loadVerifiedTokens ex_env get_down rnd_half 1700000000001 1700000000002 broken_disk 50 =
     (Inr (builtin_seed ex_env),
      broken_disk\<lparr>cache := CacheJson (Some 1700000000002) (builtin_seed ex_env)\<rparr>)
   \<and> loadVerifiedTokens ex_env get_down rnd_half 1700000000001 1700000000002 stale_disk 50 =
     (Inr [ex_x], stale_disk\<lparr>cache := CacheJson (Some 1700000000002) [ex_x]\<rparr>)
   \<and> fetch_verified get_down rnd_half ex_env = None
   \<and> cache broken_disk = BadCache
   \<and> cache stale_disk = CacheJson (Some 0) [ex_x]
   \<and> readSeed ex_env broken_disk 50 = builtin_seed ex_env
   \<and> loadVerifiedTokens ex_env get_down rnd_half 1700000000001 1700000000002 sealed_disk 50
       = (Inl MkdirFailed, sealed_disk)
   \<and> resolved ex_env sealed_world = []"
proof -
  have m: "\<not> mkdir_throws broken_disk" "\<not> offline ex_env" "\<not> write_throws broken_disk"
    "\<not> mkdir_throws stale_disk" "\<not> write_throws stale_disk"
    "mkdir_throws sealed_disk" "mkdir_throws (disk sealed_world)"
    by (simp_all add: broken_disk_def stale_disk_def sealed_disk_def sealed_world_def ex_env_def)
  have c: "cache broken_disk = BadCache" "cache stale_disk = CacheJson (Some 0) [ex_x]"
    by (simp_all add: broken_disk_def stale_disk_def)
  have old: "\<not> 1700000000001 - (case Some 0 of Some t \<Rightarrow> t | None \<Rightarrow> 0) < JUP_TOKENS_CACHE_TTL_MS ex_env"
    by (simp add: ex_env_def)
  have s: "readSeed ex_env broken_disk 50 = builtin_seed ex_env"
    "slice0 (builtin_seed ex_env) 50 = builtin_seed ex_env"
    "slice0 [ex_x] 50 = [ex_x]"
    by (simp_all add: readSeed_def broken_disk_def slice0_def builtin_seed_def)
  have full: "loadVerifiedTokens ex_env get_down rnd_half 1700000000001 1700000000002 broken_disk 50 =
     (Inr (builtin_seed ex_env),
      broken_disk\<lparr>cache := CacheJson (Some 1700000000002) (builtin_seed ex_env)\<rparr>)"
    using m c s by (simp add: loadVerifiedTokens_def readCache_def down_fetched write_cache_def Let_def)
  have stale: "loadVerifiedTokens ex_env get_down rnd_half 1700000000001 1700000000002 stale_disk 50 =
     (Inr [ex_x], stale_disk\<lparr>cache := CacheJson (Some 1700000000002) [ex_x]\<rparr>)"
    using m c s old
    by (simp add: loadVerifiedTokens_def readCache_def down_fetched write_cache_def Let_def)
  show ?thesis
    using resolver_returns_list[of broken_disk ex_env get_down rnd_half 1700000000001
        1700000000002 50 sealed_world]
      resolver_returns_list[of stale_disk ex_env get_down rnd_half 1700000000001
        1700000000002 50 sealed_world]
      resolver_returns_list[of sealed_disk ex_env get_down rnd_half 1700000000001
        1700000000002 50 sealed_world]
      m c s full stale down_fetched
    by simp
qed

text \<open>
  Claim C5, as stated, has the chosen list written to the cache file with the current
  timestamp on every path. On a fresh cache hit nothing is written: with the limit 1 the
  call returns the first cached token, and the file keeps its two tokens and its old
  timestamp.
\<close>

theorem fresh_cache_hit_counterexample:
  "loadVerifiedTokens ex_env get_down rnd_half 1700000000001 1700000000002 ex_disk 1
     = (Inr [ex_base], ex_disk)
   \<and> cache ex_disk = CacheJson (Some 1699999000000) [ex_base, ex_x]
   \<and> cache ex_disk \<noteq> CacheJson (Some 1700000000002) [ex_base]"
  by (simp add: loadVerifiedTokens_def readCache_def ex_disk_def ex_env_def slice0_def)

text \<open>
  Claim C5, amended: for a limit that is not negative, on every path the list returned
  has at most \<open>limit\<close> elements. On a fresh cache hit the files are left as they are.
  On the other paths (offline, a directory response, the stale cache or the seed) the
  list is written to the cache file with the clock reading of the write before the call
  returns, unless the write throws, which is ignored and leaves the files as they are.
\<close>

theorem resolver_truncates_and_writes:
  assumes "0 \<le> limit" and "\<not> mkdir_throws f"
  shows "\<exists>tokens f'. loadVerifiedTokens e get rnd tc tw f limit = (Inr tokens, f')
     \<and> int (length tokens) \<le> limit
     \<and> (if \<not> offline e \<and> readCache e tc f limit False \<noteq> None then f' = f
         else if write_throws f then f' = f
         else f' = f\<lparr>cache := CacheJson (Some tw) tokens\<rparr>)"
proof (cases "offline e")
  case True
  then show ?thesis
    using assms
    by (auto simp: loadVerifiedTokens_def Let_def write_cache_def length_readSeed
        length_readCache split: option.splits)
next
  case False
  show ?thesis
  proof (cases "readCache e tc f limit False")
    case None
    with False assms show ?thesis
      by (simp add: loadVerifiedTokens_def Let_def write_cache_def length_slice0)
  next
    case (Some c)
    with False assms show ?thesis
      by (simp add: loadVerifiedTokens_def length_readCache)
  qed
qed

lemma listing_fetched:
  "fetch_verified get_listing rnd_half ex_env = Some [token_of ''A'', token_of ''B'', token_of ''C'']"
  by (simp add: fetch_verified_def fetchJsonWithBackoff_def fetch_loop.simps get_listing_def
      replay_def err503_def retriable_def dir_array_def to_token_def item_of_def token_of_def)

theorem resolver_truncates_and_writes_witness:
  "loadVerifiedTokens ex_env get_listing rnd_half 1700000000001 1700000000002 stale_disk 2
     = (Inr [token_of ''A'', token_of ''B''],
        stale_disk\<lparr>cache := CacheJson (Some 1700000000002) [token_of ''A'', token_of ''B'']\<rparr>)
   \<and> readCache ex_env 1700000000001 stale_disk 2 False = None
   \<and> int (length [token_of ''A'', token_of ''B'']) \<le> 2"
proof -
  have m: "\<not> mkdir_throws stale_disk" "\<not> offline ex_env" "\<not> write_throws stale_disk"
    by (simp_all add: stale_disk_def ex_env_def)
  have c: "readCache ex_env 1700000000001 stale_disk 2 False = None"
    by (simp add: readCache_def stale_disk_def ex_env_def)
  have full: "loadVerifiedTokens ex_env get_listing rnd_half 1700000000001 1700000000002 stale_disk 2
     = (Inr [token_of ''A'', token_of ''B''],
        stale_disk\<lparr>cache := CacheJson (Some 1700000000002) [token_of ''A'', token_of ''B'']\<rparr>)"
    using m c by (simp add: loadVerifiedTokens_def listing_fetched write_cache_def Let_def slice0_def)
  show ?thesis
    using resolver_truncates_and_writes[OF _ m(1), of 2 ex_env get_listing rnd_half
        1700000000001 1700000000002] full c
    by simp
qed




end
